theory Spec2Isabelle
  imports Main "HOL-Library.Sublist"
begin

section \<open>Tasks, ports and workflows of gbdxtools/simpleworkflows.py\<close>

text \<open>
  The module builds a graph of tasks with named input and output ports and serialises it
  to the JSON document of the workflow service. Python objects are modelled by their
  instance dictionaries, mutation by explicit state passing, and every \<open>raise\<close> of the
  source or of the interpreter by an \<open>error\<close> value.

  Boundary of the model. An object is its instance dictionary. A method that the source
  calls by name on a port collection (\<open>self.__getattribute__(k)\<close>,
  \<open>self.get_matching_multiplex_port(k)\<close>, \<open>self.__setattr__(k, v)\<close>) is looked up like
  any attribute: the methods are not data descriptors, so an entry of the instance
  dictionary under the method's name shadows it, and the call raises TypeError, since
  nothing a dictionary of the model holds can be called. The other attributes of the
  classes are not modelled: \<open>hasattr\<close> and the plain lookup see the instance dictionary
  only. That is what Python 3 does for a name that does not begin with two underscores
  and is not \<open>get_matching_multiplex_port\<close>, the only attribute of the classes \<open>Inputs\<close>
  and \<open>Outputs\<close> whose name does not begin with two underscores; the properties below are
  stated for collections whose port names are of that kind (\<open>ordinary\<close>). Keyword
  arguments are an association list; a keyword that names a positional parameter of the
  called method (\<open>self\<close>, and for \<open>Task.__init__\<close> the mangled
  \<open>_Task__task_type\<close>) makes the call raise TypeError before the body runs. A Python
  \<open>set\<close> of names is a duplicate-free list standing for the set in whichever order the
  interpreter iterates it; every statement below is about an arbitrary such list. Values
  are \<open>None\<close>, booleans, integers, strings, lists, tuples, string-keyed dictionaries and
  \<open>Port\<close> objects.
\<close>

subsection \<open>Values and errors\<close>

datatype error =
    AttributeError string
  | ValueError string
  | WorkflowError string
  | NotImplementedError string
  | TypeError string
  | IndexError string
  | KeyError string

text \<open>class Port: the fields of \<open>__init__\<close>, and the two attributes \<open>_persist\<close> and
  \<open>_persist_location\<close> that exist only once their setters have run.\<close>

datatype 'v port = Port
  (port_name: string)
  (port_type: string)
  (port_required: "bool option")
  (port_description: "string option")
  (port_value: 'v)
  (is_input_port: bool)
  (is_multiplex: bool)
  (persist_attr: "'v option")
  (persist_location_attr: "'v option")

datatype pyval =
    PNone
  | PBool bool
  | PInt int
  | PStr string
  | PList "pyval list"
  | PTuple "pyval list"
  | PDict "(string \<times> pyval) list"
  | PPort "pyval port"

text \<open>What an instance dictionary of a port collection holds: a value (for a port, the
  Port object), the reference to the owning Task, or the set of port names.\<close>

datatype attr = Val pyval | Owner | Names "string list"

type_synonym obj = "string \<Rightarrow> attr option"

text \<open>Python truthiness (\<open>if x:\<close>, \<open>not x\<close>). Port defines neither \<open>__bool__\<close> nor
  \<open>__len__\<close>, so a Port is always true.\<close>

fun truthy :: "pyval \<Rightarrow> bool" where
  "truthy PNone = False"
| "truthy (PBool b) = b"
| "truthy (PInt n) = (n \<noteq> 0)"
| "truthy (PStr s) = (s \<noteq> [])"
| "truthy (PList xs) = (xs \<noteq> [])"
| "truthy (PTuple xs) = (xs \<noteq> [])"
| "truthy (PDict kvs) = (kvs \<noteq> [])"
| "truthy (PPort p) = True"

text \<open>\<open>s.replace(old, new)\<close>: every non-overlapping occurrence, left to right.\<close>

fun py_replace :: "string \<Rightarrow> string \<Rightarrow> string \<Rightarrow> string" where
  "py_replace old new [] = (if old = [] then new else [])"
| "py_replace old new (c # cs) =
     (if old = [] then new @ concat (map (\<lambda>x. x # new) (c # cs))
      else if prefix old (c # cs) then new @ py_replace old new (drop (length old - 1) cs)
      else c # py_replace old new cs)"

text \<open>\<open>'%s' % n\<close> for an integer.\<close>

fun str_nat :: "nat \<Rightarrow> string" where
  "str_nat n =
     (if n < 10 then [''0123456789'' ! n]
      else str_nat (n div 10) @ [''0123456789'' ! (n mod 10)])"

declare str_nat.simps [simp del]

definition str_int :: "int \<Rightarrow> string" where
  "str_int i = (if i < 0 then CHR ''-'' # str_nat (nat (- i)) else str_nat (nat i))"

text \<open>Dictionaries with string keys, in insertion order.\<close>

fun dict_get :: "(string \<times> pyval) list \<Rightarrow> string \<Rightarrow> pyval option" where
  "dict_get [] k = None"
| "dict_get ((k', v) # kvs) k = (if k' = k then Some v else dict_get kvs k)"

fun dict_set :: "(string \<times> pyval) list \<Rightarrow> string \<Rightarrow> pyval \<Rightarrow> (string \<times> pyval) list" where
  "dict_set [] k v = [(k, v)]"
| "dict_set ((k', v') # kvs) k v =
     (if k' = k then (k, v) # kvs else (k', v') # dict_set kvs k v)"

text \<open>\<open>names.update([k])\<close> on a set of names.\<close>

definition set_add :: "string list \<Rightarrow> string \<Rightarrow> string list" where
  "set_add ns k = (if k \<in> set ns then ns else ns @ [k])"

subsection \<open>Port\<close>

definition set_port_value :: "'v \<Rightarrow> 'v port \<Rightarrow> 'v port" where
  "set_port_value v p =
     Port (port_name p) (port_type p) (port_required p) (port_description p) v
       (is_input_port p) (is_multiplex p) (persist_attr p) (persist_location_attr p)"

text \<open>The property \<open>persist\<close>: False on an input port, else \<open>_persist\<close>, or False when
  that attribute does not exist.\<close>

definition persist :: "pyval port \<Rightarrow> pyval" where
  "persist p =
     (if is_input_port p then PBool False
      else (case persist_attr p of Some v \<Rightarrow> v | None \<Rightarrow> PBool False))"

definition persist_setter :: "pyval \<Rightarrow> pyval port \<Rightarrow> pyval port" where
  "persist_setter v p =
     (if \<not> is_input_port p then
        Port (port_name p) (port_type p) (port_required p) (port_description p) (port_value p)
          (is_input_port p) (is_multiplex p) (Some v) (persist_location_attr p)
      else p)"

definition persist_location :: "pyval port \<Rightarrow> pyval" where
  "persist_location p =
     (if is_input_port p then PNone
      else (case persist_location_attr p of Some v \<Rightarrow> v | None \<Rightarrow> PNone))"

definition persist_location_setter :: "pyval \<Rightarrow> pyval port \<Rightarrow> pyval port" where
  "persist_location_setter v p =
     (if \<not> is_input_port p then
        Port (port_name p) (port_type p) (port_required p) (port_description p) (port_value p)
          (is_input_port p) (is_multiplex p) (persist_attr p) (Some v)
      else p)"

subsection \<open>PortList\<close>

text \<open>One entry of \<open>inputPortDescriptors\<close> or \<open>outputPortDescriptors\<close>: \<open>name\<close> and
  \<open>type\<close> are read with \<open>p[...]\<close>, the others with \<open>p.get(...)\<close>.\<close>

record descriptor =
  d_name :: string
  d_type :: string
  d_required :: "bool option"
  d_description :: "string option"
  d_multiplex :: "bool option"

text \<open>\<open>object.__getattribute__(self, k)\<close> on the instance dictionary.\<close>

definition object_getattribute :: "obj \<Rightarrow> string \<Rightarrow> error + attr" where
  "object_getattribute self k =
     (case self k of
        Some a \<Rightarrow> Inr a
      | None \<Rightarrow> Inl (AttributeError (''object has no attribute '' @ k)))"

text \<open>\<open>isinstance(v, list)\<close>, which a tuple does not pass, and the Port an attribute
  holds, if it holds one.\<close>

fun as_list :: "pyval \<Rightarrow> pyval list option" where
  "as_list (PList xs) = Some xs"
| "as_list v = None"

fun as_port :: "attr \<Rightarrow> pyval port option" where
  "as_port (Val (PPort p)) = Some p"
| "as_port a = None"

text \<open>The explicit call \<open>self.__getattribute__(k)\<close> on an Inputs object, or inside
  \<open>get_matching_multiplex_port\<close> on either collection, where an attribute of a Port
  (\<open>value\<close>, \<open>is_multiplex\<close>) is read or written next. The call raises TypeError when
  an attribute \<open>__getattribute__\<close> of the instance shadows the method (in an Outputs
  object the name begins with two underscores, so \<open>Outputs.__getattribute__\<close> hands it
  to the plain lookup, which finds the instance attribute first). Then both steps raise
  AttributeError, the first when the collection has no attribute \<open>k\<close>, the second when
  that attribute is not a Port. None, numbers, strings, lists, tuples, dictionaries and
  sets have no such attribute and accept none. The owning task has none either; it would
  accept the assignment of \<open>value\<close>, but it is stored under \<open>task\<close> only, and a write
  to the name \<open>task\<close> never reaches that assignment.\<close>

definition port_at :: "obj \<Rightarrow> string \<Rightarrow> error + pyval port" where
  "port_at self k =
     (if self ''__getattribute__'' \<noteq> None then Inl (TypeError ''object is not callable'')
      else
        (case self k of
           None \<Rightarrow> Inl (AttributeError (''object has no attribute '' @ k))
         | Some a \<Rightarrow>
             (case as_port a of
                Some p \<Rightarrow> Inr p
              | None \<Rightarrow> Inl (AttributeError ''object has no attribute of a Port''))))"

text \<open>\<open>self._portnames\<close> where it is iterated or tested with \<open>in\<close>. The source only ever
  stores a set there, or a Port when a port is itself called \<open>_portnames\<close>; a Port is not
  iterable. Any other value is treated the same way.\<close>

definition portnames_of :: "obj \<Rightarrow> error + string list" where
  "portnames_of self =
     (case self ''_portnames'' of
        Some (Names ns) \<Rightarrow> Inr ns
      | Some _ \<Rightarrow> Inl (TypeError ''_portnames is not iterable'')
      | None \<Rightarrow> Inl (AttributeError ''object has no attribute _portnames''))"

text \<open>The list comprehension of \<open>get_matching_multiplex_port\<close>: the ports \<open>p\<close> of
  \<open>_portnames\<close> with \<open>name.startswith(p) and name != p and hasattr(self, p) and
  self.__getattribute__(p).is_multiplex\<close>. \<open>hasattr\<close> is the test that the instance
  dictionary has \<open>p\<close>, which is what it is for a name that no attribute of the class
  has. Reading \<open>is_multiplex\<close> of something that is not a Port raises.
  In an Outputs object the read goes through \<open>Outputs.__getattribute__\<close>, which for a
  member of \<open>_portnames\<close> is the plain lookup.\<close>

fun matching_multiplex_ports :: "obj \<Rightarrow> string \<Rightarrow> string list \<Rightarrow> error + pyval port list" where
  "matching_multiplex_ports self name [] = Inr []"
| "matching_multiplex_ports self name (p # ps) =
     (if prefix p name \<and> name \<noteq> p \<and> self p \<noteq> None then
        (case port_at self p of
           Inl e \<Rightarrow> Inl e
         | Inr q \<Rightarrow>
             if is_multiplex q then
               (case matching_multiplex_ports self name ps of
                  Inl e \<Rightarrow> Inl e
                | Inr r \<Rightarrow> Inr (q # r))
             else matching_multiplex_ports self name ps)
      else matching_multiplex_ports self name ps)"

text \<open>The call \<open>self.get_matching_multiplex_port(name)\<close>, which both collections make
  by name: an attribute \<open>get_matching_multiplex_port\<close> of the instance shadows the
  method.\<close>

definition get_matching_multiplex_port :: "obj \<Rightarrow> string \<Rightarrow> error + pyval port option" where
  "get_matching_multiplex_port self name =
     (if self ''get_matching_multiplex_port'' \<noteq> None
      then Inl (TypeError ''object is not callable'')
      else
        (case portnames_of self of
           Inl e \<Rightarrow> Inl e
         | Inr ns \<Rightarrow>
             (case matching_multiplex_ports self name ns of
                Inl e \<Rightarrow> Inl e
              | Inr [] \<Rightarrow> Inr None
              | Inr (port # _) \<Rightarrow> Inr (Some port))))"

subsection \<open>Task state\<close>

text \<open>What \<open>TaskRegistry().get_definition\<close> returns (the registry is not part of this
  module): the keys the constructor reads. \<open>containerDescriptors\<close> may be absent; each
  container is given by its \<open>properties\<close> dictionary.\<close>

record task_definition =
  inputPortDescriptors :: "descriptor list"
  outputPortDescriptors :: "descriptor list"
  containerDescriptors :: "(string \<times> pyval) list list option"
  properties :: "(string \<times> pyval) list"

record task =
  task_name :: string
  task_type :: string
  task_definition :: task_definition
  task_domain :: pyval
  task_timeout :: pyval
  task_inputs :: obj
  task_outputs :: obj
  task_batch_values :: pyval
  task_impersonation_allowed :: pyval

subsection \<open>Inputs\<close>

text \<open>The batch branch of \<open>Inputs.__setattr__\<close> after the port has received its
  placeholder: \<open>self.task.batch_values\<close> is created when it is empty or None, and the
  record is appended. The collection reaches its task through its own attribute
  \<open>task\<close>.\<close>

definition append_batch_values :: "string \<Rightarrow> pyval list \<Rightarrow> task \<Rightarrow> (error + unit) \<times> task" where
  "append_batch_values k xs t =
     (if task_inputs t ''task'' = Some Owner then
        (let t' = (if \<not> truthy (task_batch_values t) then t\<lparr>task_batch_values := PList []\<rparr> else t)
         in
         case as_list (task_batch_values t') of
           Some bs \<Rightarrow>
             (Inr (), t'\<lparr>task_batch_values := PList (bs @
                [PDict [(''name'', PStr (''batch_input_'' @ k)), (''values'', PList xs)]])\<rparr>)
         | None \<Rightarrow> (Inl (AttributeError ''object has no attribute append''), t'))
      else (Inl (AttributeError ''object has no attribute batch_values''), t))"

text \<open>\<open>Inputs.__setattr__(k, v)\<close>, on the task that owns the collection, as the
  interpreter calls it for \<open>inputs.k = v\<close>. \<open>hasattr(self, k)\<close> is the test that the
  instance dictionary has \<open>k\<close>, which is what it is for a name that no attribute of the
  class has.\<close>

definition Inputs_setattr :: "string \<Rightarrow> pyval \<Rightarrow> task \<Rightarrow> (error + unit) \<times> task" where
  "Inputs_setattr k v t =
     (let self = task_inputs t in
      if k = ''task'' then (Inr (), t\<lparr>task_inputs := self(k \<mapsto> Val v)\<rparr>)
      else if k \<in> set [''_portnames''] then (Inr (), t\<lparr>task_inputs := self(k \<mapsto> Val v)\<rparr>)
      else
        (case portnames_of self of
           Inl e \<Rightarrow> (Inl e, t)
         | Inr ns \<Rightarrow>
             if k \<in> set ns \<and> self k \<noteq> None then
               (case port_at self k of
                  Inl e \<Rightarrow> (Inl e, t)
                | Inr p \<Rightarrow>
                    (case as_list v of
                       Some xs \<Rightarrow>
                         append_batch_values k xs
                           (t\<lparr>task_inputs := self(k \<mapsto> Val (PPort (set_port_value
                                (PStr (''{{'' @ ''batch_input_'' @ k @ ''}}'')) p)))\<rparr>)
                     | None \<Rightarrow>
                         (Inr (), t\<lparr>task_inputs := self(k \<mapsto> Val (PPort (set_port_value v p)))\<rparr>)))
             else
               (case get_matching_multiplex_port self k of
                  Inl e \<Rightarrow> (Inl e, t)
                | Inr (Some mp_port) \<Rightarrow>
                    (Inr (), t\<lparr>task_inputs := (self(k \<mapsto> Val (PPort
                         (Port k (port_type mp_port) (port_required mp_port)
                            (port_description mp_port) v True False None None))))
                         (''_portnames'' \<mapsto> Names (set_add ns k))\<rparr>)
                | Inr None \<Rightarrow>
                    if k \<in> set ns then (Inr (), t\<lparr>task_inputs := self(k \<mapsto> Val v)\<rparr>)
                    else (Inl (AttributeError (''Task has no input port named '' @ k @ ''.'')), t))))"

text \<open>\<open>PortList.__init__(ports, task)\<close> on an Inputs object. \<open>self.task = task\<close> and
  \<open>self._portnames = set(...)\<close> take the first two branches of \<open>__setattr__\<close>, which
  store the owner and the set of names; then one call \<open>self.__setattr__(name, Port(...))\<close>
  per descriptor with a fresh input Port whose value is None. That call is made by name:
  an attribute \<open>__setattr__\<close> of the instance, stored for an earlier descriptor, shadows
  the method.\<close>

fun PortList_init_ports :: "descriptor list \<Rightarrow> task \<Rightarrow> (error + unit) \<times> task" where
  "PortList_init_ports [] t = (Inr (), t)"
| "PortList_init_ports (p # ps) t =
     (if task_inputs t ''__setattr__'' \<noteq> None
      then (Inl (TypeError ''object is not callable''), t)
      else
        (case Inputs_setattr (d_name p)
                (PPort (Port (d_name p) (d_type p) (d_required p) (d_description p) PNone True
                   (case d_multiplex p of Some b \<Rightarrow> b | None \<Rightarrow> False) None None)) t of
           (Inl e, t') \<Rightarrow> (Inl e, t')
         | (Inr u, t') \<Rightarrow> PortList_init_ports ps t'))"

definition Inputs_init :: "descriptor list \<Rightarrow> task \<Rightarrow> (error + unit) \<times> task" where
  "Inputs_init ports t =
     PortList_init_ports ports
       (t\<lparr>task_inputs := Map.empty(''task'' \<mapsto> Owner,
                                     ''_portnames'' \<mapsto> Names (remdups (map d_name ports)))\<rparr>)"

subsection \<open>Outputs\<close>

text \<open>\<open>Outputs.__init__(ports, task_name)\<close>. Outputs does not override \<open>__setattr__\<close>:
  each assignment is a plain store. The port value is the forward reference
  \<open>"source:" + self._task_name + ":" + name\<close>, read again for each port. The ports are
  stored with the call \<open>self.__setattr__(name, Port(...))\<close>: the arguments are evaluated
  before the call is made, and the call raises when an attribute \<open>__setattr__\<close> of the
  instance shadows the method.\<close>

definition task_name_of :: "obj \<Rightarrow> error + string" where
  "task_name_of self =
     (case self ''_task_name'' of
        Some (Val (PStr n)) \<Rightarrow> Inr n
      | Some _ \<Rightarrow> Inl (TypeError ''can only concatenate str to str'')
      | None \<Rightarrow> Inl (AttributeError ''object has no attribute _task_name''))"

fun Outputs_init_ports :: "descriptor list \<Rightarrow> obj \<Rightarrow> error + obj" where
  "Outputs_init_ports [] self = Inr self"
| "Outputs_init_ports (p # ps) self =
     (case task_name_of self of
        Inl e \<Rightarrow> Inl e
      | Inr tn \<Rightarrow>
          if self ''__setattr__'' \<noteq> None then Inl (TypeError ''object is not callable'')
          else
            Outputs_init_ports ps (self(d_name p \<mapsto>
              Val (PPort (Port (d_name p) (d_type p) (d_required p) (d_description p)
                (PStr (''source:'' @ tn @ '':'' @ d_name p)) False
                (case d_multiplex p of Some b \<Rightarrow> b | None \<Rightarrow> False) None None)))))"

definition Outputs_init :: "descriptor list \<Rightarrow> string \<Rightarrow> error + obj" where
  "Outputs_init ports tn =
     Outputs_init_ports ports
       (Map.empty(''_task_name'' \<mapsto> Val (PStr tn),
                  ''_portnames'' \<mapsto> Names (remdups (map d_name ports))))"

text \<open>\<open>Outputs.__getattribute__(k)\<close>, as the interpreter calls it for \<open>outputs.k\<close>:
  internal names are read plainly; a registered port is returned; a name with a multiplex
  prefix creates the port (with the call \<open>self.__setattr__(k, Port(...))\<close>, made by name
  after its arguments are evaluated), registers it and returns it; anything else ends in
  the plain lookup, which raises.\<close>

definition Outputs_getattribute :: "string \<Rightarrow> obj \<Rightarrow> (error + attr) \<times> obj" where
  "Outputs_getattribute k self =
     (if k \<in> set [''_portnames'', ''_task_name'', ''get_matching_multiplex_port'']
          \<or> prefix ''__'' k
      then (object_getattribute self k, self)
      else
        (case portnames_of self of
           Inl e \<Rightarrow> (Inl e, self)
         | Inr ns \<Rightarrow>
             if k \<in> set ns then (object_getattribute self k, self)
             else
               (case get_matching_multiplex_port self k of
                  Inl e \<Rightarrow> (Inl e, self)
                | Inr (Some mp_port) \<Rightarrow>
                    (case task_name_of self of
                       Inl e \<Rightarrow> (Inl e, self)
                     | Inr tn \<Rightarrow>
                         if self ''__setattr__'' \<noteq> None
                         then (Inl (TypeError ''object is not callable''), self)
                         else
                           (let self' = (self(k \<mapsto> Val (PPort
                                   (Port (port_name mp_port) (port_type mp_port)
                                      (port_required mp_port) (port_description mp_port)
                                      (PStr (''source:'' @ tn @ '':'' @ k)) False False None None))))
                                   (''_portnames'' \<mapsto> Names (set_add ns k))
                            in (object_getattribute self' k, self')))
                | Inr None \<Rightarrow> (object_getattribute self k, self))))"

subsection \<open>Task\<close>

text \<open>The loop of \<open>Task.set(**kwargs)\<close>: a value that has an attribute \<open>value\<close> (a
  Port) is replaced by that attribute, then written with the call
  \<open>self.inputs.__setattr__(port_name, port_value)\<close>, which is made by name; the keyword
  arguments are taken in their order.\<close>

fun Task_set_items :: "(string \<times> pyval) list \<Rightarrow> task \<Rightarrow> (error + unit) \<times> task" where
  "Task_set_items [] t = (Inr (), t)"
| "Task_set_items ((k, v) # kwargs) t =
     (if task_inputs t ''__setattr__'' \<noteq> None
      then (Inl (TypeError ''object is not callable''), t)
      else
        (case Inputs_setattr k (case v of PPort p \<Rightarrow> port_value p | _ \<Rightarrow> v) t of
           (Inl e, t') \<Rightarrow> (Inl e, t')
         | (Inr u, t') \<Rightarrow> Task_set_items kwargs t'))"

text \<open>\<open>Task.set(**kwargs)\<close>. The signature is \<open>set(self, **kwargs)\<close>: the keyword
  \<open>self\<close> cannot be bound, and the call raises before the loop starts.\<close>

definition Task_set :: "(string \<times> pyval) list \<Rightarrow> task \<Rightarrow> (error + unit) \<times> task" where
  "Task_set kwargs t =
     (if ''self'' \<in> set (map fst kwargs)
      then (Inl (TypeError ''set() got multiple values for argument self''), t)
      else Task_set_items kwargs t)"

text \<open>\<open>definition.get('containerDescriptors', [{'properties': {}}])[0]['properties']
  .get('domain', 'default')\<close>.\<close>

definition definition_domain :: "task_definition \<Rightarrow> error + pyval" where
  "definition_domain d =
     (case containerDescriptors d of
        None \<Rightarrow> Inr (PStr ''default'')
      | Some [] \<Rightarrow> Inl (IndexError ''list index out of range'')
      | Some (c # cs) \<Rightarrow>
          Inr (case dict_get c ''domain'' of Some v \<Rightarrow> v | None \<Rightarrow> PStr ''default''))"

text \<open>\<open>Task.__init__(__task_type, **kwargs)\<close>. The registry's answer and the text of
  \<open>str(uuid.uuid4())\<close> are parameters. The keywords \<open>self\<close> and \<open>_Task__task_type\<close>
  (the name of the first parameter after the mangling of private names) cannot be bound.
  All other keyword arguments go to \<open>set\<close>.\<close>

definition Task_init ::
  "string \<Rightarrow> string \<Rightarrow> task_definition \<Rightarrow> (string \<times> pyval) list \<Rightarrow> error + task" where
  "Task_init ty uuid d kwargs =
     (let nm = py_replace '':'' ''_'' (ty @ ''_'' @ take 8 uuid) in
      if ''self'' \<in> set (map fst kwargs) \<or> ''_Task__task_type'' \<in> set (map fst kwargs)
      then Inl (TypeError ''__init__() got multiple values for an argument'')
      else
      case definition_domain d of
        Inl e \<Rightarrow> Inl e
      | Inr dmn \<Rightarrow>
          (let t0 = \<lparr>task_name = nm, task_type = ty, task_definition = d, task_domain = dmn,
                      task_timeout =
                        (case dict_get (properties d) ''timeout'' of Some v \<Rightarrow> v | None \<Rightarrow> PNone),
                      task_inputs = Map.empty, task_outputs = Map.empty,
                      task_batch_values = PNone, task_impersonation_allowed = PNone\<rparr>
           in
           case Inputs_init (inputPortDescriptors d) t0 of
             (Inl e, t1) \<Rightarrow> Inl e
           | (Inr u, t1) \<Rightarrow>
               (case Outputs_init (outputPortDescriptors d) nm of
                  Inl e \<Rightarrow> Inl e
                | Inr outs \<Rightarrow>
                    (case Task_set kwargs
                            (t1\<lparr>task_outputs := outs, task_batch_values := PNone,
                                task_impersonation_allowed := PNone\<rparr>) of
                       (Inl e, t2) \<Rightarrow> Inl e
                     | (Inr u', t2) \<Rightarrow> Inr t2))))"

text \<open>The explicit call \<open>self.outputs.__getattribute__(k)\<close> where an attribute of a Port
  (\<open>value\<close>, \<open>persist\<close>, \<open>persist_location\<close>, \<open>is_multiplex\<close>) is read next. The
  method is looked up by name, so an attribute \<open>__getattribute__\<close> of the instance (an
  output port of that name) shadows it.\<close>

definition output_port_at :: "string \<Rightarrow> obj \<Rightarrow> (error + pyval port) \<times> obj" where
  "output_port_at k outs =
     (if outs ''__getattribute__'' \<noteq> None
      then (Inl (TypeError ''object is not callable''), outs)
      else
        (case Outputs_getattribute k outs of
           (Inl e, outs1) \<Rightarrow> (Inl e, outs1)
         | (Inr a, outs1) \<Rightarrow>
             (case as_port a of
                Some p \<Rightarrow> (Inr p, outs1)
              | None \<Rightarrow> (Inl (AttributeError ''object has no attribute of a Port''), outs1))))"

text \<open>\<open>get_output(port_name)\<close>: \<open>self.outputs.__getattribute__(port_name).value\<close>.\<close>

definition get_output :: "string \<Rightarrow> task \<Rightarrow> (error + pyval) \<times> task" where
  "get_output k t =
     (case output_port_at k (task_outputs t) of
        (Inl e, outs) \<Rightarrow> (Inl e, t\<lparr>task_outputs := outs\<rparr>)
      | (Inr p, outs) \<Rightarrow> (Inr (port_value p), t\<lparr>task_outputs := outs\<rparr>))"

text \<open>The property \<open>impersonation_allowed\<close> and its setter.\<close>

definition impersonation_allowed :: "task \<Rightarrow> pyval" where
  "impersonation_allowed t = task_impersonation_allowed t"

definition impersonation_allowed_setter :: "pyval \<Rightarrow> task \<Rightarrow> task" where
  "impersonation_allowed_setter v t =
     (if v = PBool True then t\<lparr>task_impersonation_allowed := PBool True\<rparr> else t)"

text \<open>The property \<open>timeout\<close> and its setter, for an integer argument.\<close>

definition timeout :: "task \<Rightarrow> pyval" where
  "timeout t = task_timeout t"

definition timeout_setter :: "int \<Rightarrow> task \<Rightarrow> (error + unit) \<times> task" where
  "timeout_setter v t =
     (if \<not> (0 < v \<and> v < 172800)
      then (Inl (ValueError (''timeout of '' @ str_int v @ '' is not a valid number'')), t)
      else (Inr (), t\<lparr>task_timeout := PInt v\<rparr>))"

text \<open>\<open>str(v).startswith('source:')\<close>. The text of None, a boolean, an integer, a list,
  a tuple, a dictionary or a Port begins with another character than \<open>s\<close>.\<close>

fun str_startswith_source :: "pyval \<Rightarrow> bool" where
  "str_startswith_source (PStr s) = prefix ''source:'' s"
| "str_startswith_source v = False"

text \<open>The loop over \<open>self.inputs._portnames\<close> of \<open>generate_task_workflow_json\<close>.\<close>

definition input_entry :: "string \<Rightarrow> pyval \<Rightarrow> pyval list" where
  "input_entry input_port_name input_port_value =
     (if input_port_value = PNone then []
      else
        (let v1 = (if input_port_value = PBool False then PStr ''false'' else input_port_value);
             v2 = (if v1 = PBool True then PStr ''true'' else v1)
         in
         if str_startswith_source v2 then
           [PDict [(''name'', PStr input_port_name),
                   (''source'', (case v2 of PStr s \<Rightarrow> PStr (py_replace ''source:'' [] s) | _ \<Rightarrow> v2))]]
         else [PDict [(''name'', PStr input_port_name), (''value'', v2)]]))"

fun inputs_json :: "obj \<Rightarrow> string list \<Rightarrow> error + pyval list" where
  "inputs_json self [] = Inr []"
| "inputs_json self (n # ns) =
     (case port_at self n of
        Inl e \<Rightarrow> Inl e
      | Inr p \<Rightarrow>
          (case inputs_json self ns of
             Inl e \<Rightarrow> Inl e
           | Inr r \<Rightarrow> Inr (input_entry n (port_value p) @ r)))"

text \<open>\<open>self.outputs._portnames\<close>, read through \<open>Outputs.__getattribute__\<close> and
  iterated.\<close>

definition output_portnames :: "obj \<Rightarrow> (error + string list) \<times> obj" where
  "output_portnames outs =
     (case Outputs_getattribute ''_portnames'' outs of
        (Inl e, outs1) \<Rightarrow> (Inl e, outs1)
      | (Inr (Names ns), outs1) \<Rightarrow> (Inr ns, outs1)
      | (Inr a, outs1) \<Rightarrow> (Inl (TypeError ''_portnames is not iterable''), outs1))"

text \<open>The loop over \<open>self.outputs._portnames\<close>: the port is read once for \<open>persist\<close>
  and once for \<open>persist_location\<close>.\<close>

definition output_entry :: "string \<Rightarrow> obj \<Rightarrow> (error + pyval) \<times> obj" where
  "output_entry output_port_name outs =
     (case output_port_at output_port_name outs of
        (Inl e, outs1) \<Rightarrow> (Inl e, outs1)
      | (Inr p, outs1) \<Rightarrow>
          (let d1 = [(''name'', PStr output_port_name)];
               d2 = (if truthy (persist p) then dict_set d1 ''persist'' (PBool True) else d1)
           in
           case output_port_at output_port_name outs1 of
             (Inl e, outs2) \<Rightarrow> (Inl e, outs2)
           | (Inr q, outs2) \<Rightarrow>
               (Inr (PDict (if truthy (persist_location q)
                            then dict_set d2 ''persistLocation'' (persist_location q) else d2)),
                outs2)))"

fun outputs_json :: "string list \<Rightarrow> string list \<Rightarrow> obj \<Rightarrow> (error + pyval list) \<times> obj" where
  "outputs_json excl [] outs = (Inr [], outs)"
| "outputs_json excl (n # ns) outs =
     (if n \<in> set excl then outputs_json excl ns outs
      else
        (case output_entry n outs of
           (Inl e, outs1) \<Rightarrow> (Inl e, outs1)
         | (Inr d, outs1) \<Rightarrow>
             (case outputs_json excl ns outs1 of
                (Inl e, outs2) \<Rightarrow> (Inl e, outs2)
              | (Inr r, outs2) \<Rightarrow> (Inr (d # r), outs2))))"

text \<open>\<open>generate_task_workflow_json(output_multiplex_ports_to_exclude)\<close>; the argument
  None and the empty list are the same.\<close>

definition task_record :: "task \<Rightarrow> pyval list \<Rightarrow> pyval list \<Rightarrow> pyval" where
  "task_record t inputs outputs =
     PDict ([(''name'', PStr (task_name t)),
             (''outputs'', PList outputs),
             (''inputs'', PList inputs),
             (''taskType'', PStr (task_type t)),
             (''timeout'', timeout t),
             (''containerDescriptors'',
                PList [PDict [(''properties'', PDict [(''domain'', task_domain t)])]])]
            @ (if truthy (impersonation_allowed t)
               then [(''impersonation_allowed'', impersonation_allowed t)] else []))"

definition generate_task_workflow_json :: "string list \<Rightarrow> task \<Rightarrow> (error + pyval) \<times> task" where
  "generate_task_workflow_json output_multiplex_ports_to_exclude t =
     (case portnames_of (task_inputs t) of
        Inl e \<Rightarrow> (Inl e, t)
      | Inr ins \<Rightarrow>
          (case inputs_json (task_inputs t) ins of
             Inl e \<Rightarrow> (Inl e, t)
           | Inr inputs \<Rightarrow>
               (case output_portnames (task_outputs t) of
                  (Inl e, outs0) \<Rightarrow> (Inl e, t\<lparr>task_outputs := outs0\<rparr>)
                | (Inr ons, outs0) \<Rightarrow>
                    (case outputs_json output_multiplex_ports_to_exclude ons outs0 of
                       (Inl e, outs1) \<Rightarrow> (Inl e, t\<lparr>task_outputs := outs1\<rparr>)
                     | (Inr outputs, outs1) \<Rightarrow>
                         (Inr (task_record t inputs outputs), t\<lparr>task_outputs := outs1\<rparr>)))))"

subsection \<open>The workflow service\<close>

text \<open>\<open>self.workflow\<close> is the client of the remote service (\<open>gbdxtools.workflow\<close>, not
  part of this module). A request is one of its method calls; the service answers a
  request, given the requests made before it, with a value or an error. The requests a
  workflow has made are kept in its state.\<close>

datatype call =
    Launch pyval
  | LaunchBatch pyval
  | WfGet pyval
  | WfCancel pyval
  | BatchCancel pyval
  | WfStatus pyval
  | BatchStatus pyval
  | WfEvents pyval
  | GetStdout pyval pyval
  | GetStderr pyval pyval

type_synonym service = "call list \<Rightarrow> call \<Rightarrow> error + pyval"

record workflow =
  wf_requests :: "call list"
  wf_name :: pyval
  wf_id :: pyval
  wf_callback :: pyval
  wf_definition :: pyval
  wf_tasks :: "task list"
  wf_batch_values :: pyval

definition remote :: "service \<Rightarrow> call \<Rightarrow> workflow \<Rightarrow> (error + pyval) \<times> workflow" where
  "remote svc c w = (svc (wf_requests w) c, w\<lparr>wf_requests := wf_requests w @ [c]\<rparr>)"

text \<open>\<open>d[k]\<close> for a string key, \<open>d.get(k)\<close>, and iteration.\<close>

definition subscript :: "pyval \<Rightarrow> string \<Rightarrow> error + pyval" where
  "subscript d k =
     (case d of
        PDict kvs \<Rightarrow> (case dict_get kvs k of Some v \<Rightarrow> Inr v | None \<Rightarrow> Inl (KeyError k))
      | _ \<Rightarrow> Inl (TypeError ''not subscriptable with a string''))"

definition py_get :: "pyval \<Rightarrow> string \<Rightarrow> error + pyval" where
  "py_get d k =
     (case d of
        PDict kvs \<Rightarrow> Inr (case dict_get kvs k of Some v \<Rightarrow> v | None \<Rightarrow> PNone)
      | _ \<Rightarrow> Inl (AttributeError ''object has no attribute get''))"

definition py_iter :: "pyval \<Rightarrow> error + pyval list" where
  "py_iter v =
     (case v of
        PList xs \<Rightarrow> Inr xs
      | PTuple xs \<Rightarrow> Inr xs
      | PStr s \<Rightarrow> Inr (map (\<lambda>c. PStr [c]) s)
      | PDict kvs \<Rightarrow> Inr (map (\<lambda>kv. PStr (fst kv)) kvs)
      | _ \<Rightarrow> Inl (TypeError ''object is not iterable''))"

subsection \<open>Workflow\<close>

text \<open>\<open>Workflow.__init__(tasks, **kwargs)\<close>; the text of \<open>str(uuid.uuid4())\<close> is a
  parameter. The keywords \<open>self\<close> and \<open>tasks\<close> cannot be bound. The batch values of the
  tasks are collected with \<open>extend\<close>.\<close>

fun collect_batch_values :: "task list \<Rightarrow> error + pyval list" where
  "collect_batch_values [] = Inr []"
| "collect_batch_values (t # ts) =
     (if truthy (task_batch_values t) then
        (case py_iter (task_batch_values t) of
           Inl e \<Rightarrow> Inl e
         | Inr xs \<Rightarrow>
             (case collect_batch_values ts of Inl e \<Rightarrow> Inl e | Inr r \<Rightarrow> Inr (xs @ r)))
      else collect_batch_values ts)"

definition Workflow_init ::
  "task list \<Rightarrow> string \<Rightarrow> (string \<times> pyval) list \<Rightarrow> error + workflow" where
  "Workflow_init tasks uuid kwargs =
     (if ''self'' \<in> set (map fst kwargs) \<or> ''tasks'' \<in> set (map fst kwargs)
      then Inl (TypeError ''__init__() got multiple values for an argument'')
      else
      case collect_batch_values tasks of
        Inl e \<Rightarrow> Inl e
      | Inr batch_values \<Rightarrow>
          Inr \<lparr>wf_requests = [],
               wf_name = (case dict_get kwargs ''name'' of Some v \<Rightarrow> v | None \<Rightarrow> PStr (take 8 uuid)),
               wf_id = PNone,
               wf_callback = (case dict_get kwargs ''callback'' of Some v \<Rightarrow> v | None \<Rightarrow> PNone),
               wf_definition = PNone,
               wf_tasks = tasks,
               wf_batch_values = (if batch_values \<noteq> [] then PList batch_values else PNone)\<rparr>)"

text \<open>\<open>savedata(output, location)\<close> on the port it is given.\<close>

definition savedata :: "pyval port \<Rightarrow> pyval \<Rightarrow> pyval port" where
  "savedata output location =
     (let p = persist_setter (PBool True) output in
      if truthy location then persist_location_setter location p else p)"

definition workflow_skeleton :: "workflow \<Rightarrow> (string \<times> pyval) list" where
  "workflow_skeleton w = [(''tasks'', PList []), (''name'', wf_name w)]"

text \<open>The list \<open>all_input_port_values\<close> of \<open>generate_workflow_description\<close>.\<close>

fun input_port_values :: "obj \<Rightarrow> string list \<Rightarrow> error + pyval list" where
  "input_port_values self [] = Inr []"
| "input_port_values self (n # ns) =
     (case port_at self n of
        Inl e \<Rightarrow> Inl e
      | Inr p \<Rightarrow>
          (case input_port_values self ns of
             Inl e \<Rightarrow> Inl e
           | Inr r \<Rightarrow> Inr (port_value p # r)))"

fun all_input_port_values :: "task list \<Rightarrow> error + pyval list" where
  "all_input_port_values [] = Inr []"
| "all_input_port_values (t # ts) =
     (case portnames_of (task_inputs t) of
        Inl e \<Rightarrow> Inl e
      | Inr ns \<Rightarrow>
          (case input_port_values (task_inputs t) ns of
             Inl e \<Rightarrow> Inl e
           | Inr vs \<Rightarrow>
               (case all_input_port_values ts of
                  Inl e \<Rightarrow> Inl e
                | Inr r \<Rightarrow> Inr (vs @ r))))"

text \<open>The list \<open>multiplex_output_port_names\<close>: the names of \<open>task.outputs._portnames\<close>
  whose port has \<open>is_multiplex\<close> set, each port read through \<open>Outputs.__getattribute__\<close>.\<close>

fun multiplex_output_port_names :: "string list \<Rightarrow> obj \<Rightarrow> (error + string list) \<times> obj" where
  "multiplex_output_port_names [] outs = (Inr [], outs)"
| "multiplex_output_port_names (n # ns) outs =
     (case output_port_at n outs of
        (Inl e, outs1) \<Rightarrow> (Inl e, outs1)
      | (Inr p, outs1) \<Rightarrow>
          (case multiplex_output_port_names ns outs1 of
             (Inl e, outs2) \<Rightarrow> (Inl e, outs2)
           | (Inr r, outs2) \<Rightarrow> (Inr (if is_multiplex p then n # r else r), outs2)))"

text \<open>The body of the loop over the tasks up to the call of
  \<open>generate_task_workflow_json\<close>: the multiplex output ports to exclude. \<open>n\<close> is
  \<open>len(self.tasks)\<close>.\<close>

definition output_multiplex_ports_to_exclude ::
  "nat \<Rightarrow> pyval list \<Rightarrow> task \<Rightarrow> (error + string list) \<times> task" where
  "output_multiplex_ports_to_exclude n all_values t =
     (if n > 1 then
        (case output_portnames (task_outputs t) of
           (Inl e, outs0) \<Rightarrow> (Inl e, t\<lparr>task_outputs := outs0\<rparr>)
         | (Inr ons, outs0) \<Rightarrow>
             (case multiplex_output_port_names ons outs0 of
                (Inl e, outs1) \<Rightarrow> (Inl e, t\<lparr>task_outputs := outs1\<rparr>)
              | (Inr ms, outs1) \<Rightarrow>
                  (Inr (filter (\<lambda>p. PStr (''source:'' @ task_name t @ '':'' @ p) \<notin> set all_values) ms),
                   t\<lparr>task_outputs := outs1\<rparr>)))
      else (Inr [], t))"

text \<open>The loop over the tasks. It returns the error that stopped it, if any, the task
  records appended to \<open>definition['tasks']\<close> until then, and the tasks.\<close>

fun generate_tasks ::
  "nat \<Rightarrow> pyval list \<Rightarrow> task list \<Rightarrow> error option \<times> pyval list \<times> task list" where
  "generate_tasks n all_values [] = (None, [], [])"
| "generate_tasks n all_values (t # ts) =
     (case output_multiplex_ports_to_exclude n all_values t of
        (Inl e, t1) \<Rightarrow> (Some e, [], t1 # ts)
      | (Inr excl, t1) \<Rightarrow>
          (case generate_task_workflow_json excl t1 of
             (Inl e, t2) \<Rightarrow> (Some e, [], t2 # ts)
           | (Inr task_def, t2) \<Rightarrow>
               (case generate_tasks n all_values ts of
                  (err, defs, ts') \<Rightarrow> (err, task_def # defs, t2 # ts'))))"

definition generate_workflow_description :: "workflow \<Rightarrow> (error + pyval) \<times> workflow" where
  "generate_workflow_description w =
     (if wf_tasks w = [] then
        (Inl (WorkflowError ''Workflow contains no tasks, and cannot be executed.''), w)
      else
        (let d0 = workflow_skeleton w;
             d1 = (if truthy (wf_batch_values w)
                   then dict_set d0 ''batch_values'' (wf_batch_values w) else d0)
         in
         case all_input_port_values (wf_tasks w) of
           Inl e \<Rightarrow> (Inl e, w\<lparr>wf_definition := PDict d1\<rparr>)
         | Inr all_values \<Rightarrow>
             (case generate_tasks (length (wf_tasks w)) all_values (wf_tasks w) of
                (Some e, defs, ts) \<Rightarrow>
                  (Inl e, w\<lparr>wf_definition := PDict (dict_set d1 ''tasks'' (PList defs)),
                            wf_tasks := ts\<rparr>)
              | (None, defs, ts) \<Rightarrow>
                  (let d2 = dict_set d1 ''tasks'' (PList defs);
                       d3 = (if truthy (wf_callback w)
                             then dict_set d2 ''callback'' (wf_callback w) else d2)
                   in (Inr (PDict d3), w\<lparr>wf_definition := PDict d3, wf_tasks := ts\<rparr>)))))"

text \<open>\<open>execute()\<close>.\<close>

definition execute :: "service \<Rightarrow> workflow \<Rightarrow> (error + pyval) \<times> workflow" where
  "execute svc w =
     (case generate_workflow_description w of
        (Inl e, w1) \<Rightarrow> (Inl e, w1)
      | (Inr d, w1) \<Rightarrow>
          (case remote svc (if truthy (wf_batch_values w1) then LaunchBatch (wf_definition w1)
                            else Launch (wf_definition w1)) w1 of
             (Inl e, w2) \<Rightarrow> (Inl e, w2)
           | (Inr i, w2) \<Rightarrow> (Inr i, w2\<lparr>wf_id := i\<rparr>)))"

subsection \<open>Lifecycle of a submitted workflow\<close>

text \<open>The property \<open>status\<close>.\<close>

definition status :: "service \<Rightarrow> workflow \<Rightarrow> (error + pyval) \<times> workflow" where
  "status svc w =
     (if \<not> truthy (wf_id w) then
        (Inl (WorkflowError ''Workflow is not running.  Cannot check status.''), w)
      else if truthy (wf_batch_values w) then remote svc (BatchStatus (wf_id w)) w
      else remote svc (WfStatus (wf_id w)) w)"

definition cancel :: "service \<Rightarrow> workflow \<Rightarrow> (error + pyval) \<times> workflow" where
  "cancel svc w =
     (if \<not> truthy (wf_id w) then
        (Inl (WorkflowError ''Workflow is not running.  Cannot cancel.''), w)
      else
        (case (if truthy (wf_batch_values w) then remote svc (BatchCancel (wf_id w)) w
               else remote svc (WfCancel (wf_id w)) w) of
           (Inl e, w1) \<Rightarrow> (Inl e, w1)
         | (Inr r, w1) \<Rightarrow> (Inr PNone, w1)))"

text \<open>\<open>[task['id'] for task in wf['tasks']]\<close>.\<close>

fun ids_of :: "pyval list \<Rightarrow> error + pyval list" where
  "ids_of [] = Inr []"
| "ids_of (task # tasks) =
     (case subscript task ''id'' of
        Inl e \<Rightarrow> Inl e
      | Inr i \<Rightarrow> (case ids_of tasks of Inl e \<Rightarrow> Inl e | Inr r \<Rightarrow> Inr (i # r)))"

definition task_ids :: "service \<Rightarrow> workflow \<Rightarrow> (error + pyval) \<times> workflow" where
  "task_ids svc w =
     (if \<not> truthy (wf_id w) then
        (Inl (WorkflowError ''Workflow is not running.  Cannot get task IDs.''), w)
      else if truthy (wf_batch_values w) then
        (Inl (NotImplementedError
           ''Query Each Workflow Id within the Batch Workflow for task IDs.''), w)
      else
        (case remote svc (WfGet (wf_id w)) w of
           (Inl e, w1) \<Rightarrow> (Inl e, w1)
         | (Inr wfl, w1) \<Rightarrow>
             (case subscript wfl ''tasks'' of
                Inl e \<Rightarrow> (Inl e, w1)
              | Inr ts \<Rightarrow>
                  (case py_iter ts of
                     Inl e \<Rightarrow> (Inl e, w1)
                   | Inr tasks \<Rightarrow>
                       (case ids_of tasks of
                          Inl e \<Rightarrow> (Inl e, w1)
                        | Inr ids \<Rightarrow> (Inr (PList ids), w1))))))"

definition events :: "service \<Rightarrow> workflow \<Rightarrow> (error + pyval) \<times> workflow" where
  "events svc w =
     (if \<not> truthy (wf_id w) then
        (Inl (WorkflowError ''Workflow is not running.  Cannot check status.''), w)
      else if truthy (wf_batch_values w) then
        (Inl (NotImplementedError
           ''Query Each Workflow Id within the Batch Workflow for Events''), w)
      else remote svc (WfEvents (wf_id w)) w)"

text \<open>\<open>all(workflow.get("state") in states for workflow in ws)\<close> and
  \<open>any(workflow.get("state") not in states for workflow in ws)\<close>; both stop at the first
  element that decides them.\<close>

fun all_state_in :: "string list \<Rightarrow> pyval list \<Rightarrow> error + bool" where
  "all_state_in states [] = Inr True"
| "all_state_in states (workflow # ws) =
     (case py_get workflow ''state'' of
        Inl e \<Rightarrow> Inl e
      | Inr st \<Rightarrow> if st \<in> set (map PStr states) then all_state_in states ws else Inr False)"

fun any_state_not_in :: "string list \<Rightarrow> pyval list \<Rightarrow> error + bool" where
  "any_state_not_in states [] = Inr False"
| "any_state_not_in states (workflow # ws) =
     (case py_get workflow ''state'' of
        Inl e \<Rightarrow> Inl e
      | Inr st \<Rightarrow> if st \<notin> set (map PStr states) then Inr True else any_state_not_in states ws)"

text \<open>\<open>self.status['workflows']\<close>, iterated.\<close>

definition status_workflows :: "service \<Rightarrow> workflow \<Rightarrow> (error + pyval list) \<times> workflow" where
  "status_workflows svc w =
     (case status svc w of
        (Inl e, w1) \<Rightarrow> (Inl e, w1)
      | (Inr st, w1) \<Rightarrow>
          (case subscript st ''workflows'' of
             Inl e \<Rightarrow> (Inl e, w1)
           | Inr ws \<Rightarrow> (case py_iter ws of Inl e \<Rightarrow> (Inl e, w1) | Inr xs \<Rightarrow> (Inr xs, w1))))"

text \<open>\<open>status[k1] == v1 and status[k2] == v2\<close>: the second key is read only when the
  first comparison holds.\<close>

definition both_equal :: "pyval \<Rightarrow> string \<Rightarrow> string \<Rightarrow> string \<Rightarrow> string \<Rightarrow> error + pyval" where
  "both_equal st k1 v1 k2 v2 =
     (case subscript st k1 of
        Inl e \<Rightarrow> Inl e
      | Inr a \<Rightarrow>
          if a = PStr v1 then
            (case subscript st k2 of Inl e \<Rightarrow> Inl e | Inr b \<Rightarrow> Inr (PBool (b = PStr v2)))
          else Inr (PBool False))"

text \<open>\<open>status['event'] == ev and status['state'] in ['pending', 'running']\<close>.\<close>

definition event_pending_or_running :: "pyval \<Rightarrow> string \<Rightarrow> error + pyval" where
  "event_pending_or_running st ev =
     (case subscript st ''event'' of
        Inl e \<Rightarrow> Inl e
      | Inr a \<Rightarrow>
          if a = PStr ev then
            (case subscript st ''state'' of
               Inl e \<Rightarrow> Inl e
             | Inr b \<Rightarrow> Inr (PBool (b \<in> set [PStr ''pending'', PStr ''running''])))
          else Inr (PBool False))"

definition complete :: "service \<Rightarrow> workflow \<Rightarrow> (error + pyval) \<times> workflow" where
  "complete svc w =
     (if \<not> truthy (wf_id w) then (Inr (PBool False), w)
      else if truthy (wf_batch_values w) then
        (case status_workflows svc w of
           (Inl e, w1) \<Rightarrow> (Inl e, w1)
         | (Inr ws, w1) \<Rightarrow>
             (case all_state_in [''succeeded'', ''failed'', ''timedout''] ws of
                Inl e \<Rightarrow> (Inl e, w1)
              | Inr b \<Rightarrow> (Inr (PBool b), w1)))
      else
        (case status svc w of
           (Inl e, w1) \<Rightarrow> (Inl e, w1)
         | (Inr st, w1) \<Rightarrow>
             (case subscript st ''state'' of
                Inl e \<Rightarrow> (Inl e, w1)
              | Inr a \<Rightarrow> (Inr (PBool (a = PStr ''complete'')), w1))))"

text \<open>The predicates that refuse a batch workflow share their shape: False without an
  id, not implemented for a batch, else a test of the fetched status.\<close>

definition single_workflow_predicate ::
  "(pyval \<Rightarrow> error + pyval) \<Rightarrow> service \<Rightarrow> workflow \<Rightarrow> (error + pyval) \<times> workflow" where
  "single_workflow_predicate test svc w =
     (if \<not> truthy (wf_id w) then (Inr (PBool False), w)
      else if truthy (wf_batch_values w) then
        (Inl (NotImplementedError
           ''Query Each Workflow Id within the Batch Workflow for Current State''), w)
      else
        (case status svc w of
           (Inl e, w1) \<Rightarrow> (Inl e, w1)
         | (Inr st, w1) \<Rightarrow> (test st, w1)))"

definition failed :: "service \<Rightarrow> workflow \<Rightarrow> (error + pyval) \<times> workflow" where
  "failed = single_workflow_predicate (\<lambda>st. both_equal st ''state'' ''complete'' ''event'' ''failed'')"

definition canceled :: "service \<Rightarrow> workflow \<Rightarrow> (error + pyval) \<times> workflow" where
  "canceled = single_workflow_predicate (\<lambda>st. both_equal st ''state'' ''complete'' ''event'' ''canceled'')"

definition succeeded :: "service \<Rightarrow> workflow \<Rightarrow> (error + pyval) \<times> workflow" where
  "succeeded svc w =
     (if \<not> truthy (wf_id w) then (Inr (PBool False), w)
      else if truthy (wf_batch_values w) then
        (case status_workflows svc w of
           (Inl e, w1) \<Rightarrow> (Inl e, w1)
         | (Inr ws, w1) \<Rightarrow>
             (case all_state_in [''succeeded''] ws of
                Inl e \<Rightarrow> (Inl e, w1)
              | Inr b \<Rightarrow> (Inr (PBool b), w1)))
      else
        (case status svc w of
           (Inl e, w1) \<Rightarrow> (Inl e, w1)
         | (Inr st, w1) \<Rightarrow> (both_equal st ''state'' ''complete'' ''event'' ''succeeded'', w1)))"

definition running :: "service \<Rightarrow> workflow \<Rightarrow> (error + pyval) \<times> workflow" where
  "running svc w =
     (if \<not> truthy (wf_id w) then (Inr (PBool False), w)
      else if truthy (wf_batch_values w) then
        (case status_workflows svc w of
           (Inl e, w1) \<Rightarrow> (Inl e, w1)
         | (Inr ws, w1) \<Rightarrow>
             (case any_state_not_in [''succeeded'', ''failed'', ''timedout''] ws of
                Inl e \<Rightarrow> (Inl e, w1)
              | Inr b \<Rightarrow> (Inr (PBool b), w1)))
      else
        (case status svc w of
           (Inl e, w1) \<Rightarrow> (Inl e, w1)
         | (Inr st, w1) \<Rightarrow> (both_equal st ''state'' ''running'' ''event'' ''started'', w1)))"

definition timedout :: "service \<Rightarrow> workflow \<Rightarrow> (error + pyval) \<times> workflow" where
  "timedout = single_workflow_predicate (\<lambda>st. both_equal st ''state'' ''complete'' ''event'' ''timedout'')"

definition scheduling :: "service \<Rightarrow> workflow \<Rightarrow> (error + pyval) \<times> workflow" where
  "scheduling = single_workflow_predicate (\<lambda>st. event_pending_or_running st ''scheduled'')"

definition rescheduling :: "service \<Rightarrow> workflow \<Rightarrow> (error + pyval) \<times> workflow" where
  "rescheduling = single_workflow_predicate (\<lambda>st. event_pending_or_running st ''rescheduling'')"

definition waiting :: "service \<Rightarrow> workflow \<Rightarrow> (error + pyval) \<times> workflow" where
  "waiting = single_workflow_predicate (\<lambda>st. event_pending_or_running st ''waiting'')"

definition submitting :: "service \<Rightarrow> workflow \<Rightarrow> (error + pyval) \<times> workflow" where
  "submitting = single_workflow_predicate (\<lambda>st. event_pending_or_running st ''submitting'')"

text \<open>\<open>stdout\<close> and \<open>stderr\<close>: one record per task of the fetched workflow, each with
  one more request for the task's output. \<open>fetch\<close> is \<open>GetStdout\<close> or \<open>GetStderr\<close>.\<close>

fun task_logs ::
  "service \<Rightarrow> (pyval \<Rightarrow> pyval \<Rightarrow> call) \<Rightarrow> string \<Rightarrow> pyval list \<Rightarrow> workflow
     \<Rightarrow> (error + pyval list) \<times> workflow" where
  "task_logs svc fetch key [] w = (Inr [], w)"
| "task_logs svc fetch key (task # tasks) w =
     (case subscript task ''id'' of
        Inl e \<Rightarrow> (Inl e, w)
      | Inr i \<Rightarrow>
          (case subscript task ''taskType'' of
             Inl e \<Rightarrow> (Inl e, w)
           | Inr ty \<Rightarrow>
               (case subscript task ''name'' of
                  Inl e \<Rightarrow> (Inl e, w)
                | Inr nm \<Rightarrow>
                    (case remote svc (fetch (wf_id w) i) w of
                       (Inl e, w1) \<Rightarrow> (Inl e, w1)
                     | (Inr out, w1) \<Rightarrow>
                         (case task_logs svc fetch key tasks w1 of
                            (Inl e, w2) \<Rightarrow> (Inl e, w2)
                          | (Inr r, w2) \<Rightarrow>
                              (Inr (PDict [(''id'', i), (''taskType'', ty), (''name'', nm),
                                           (key, out)] # r), w2))))))"

definition workflow_logs ::
  "string \<Rightarrow> (pyval \<Rightarrow> pyval \<Rightarrow> call) \<Rightarrow> service \<Rightarrow> workflow \<Rightarrow> (error + pyval) \<times> workflow" where
  "workflow_logs key fetch svc w =
     (if \<not> truthy (wf_id w) then
        (Inl (WorkflowError (''Workflow is not running.  Cannot get '' @ key @ ''.'')), w)
      else if truthy (wf_batch_values w) then
        (Inl (NotImplementedError
           (''Query Each Workflow Id within the Batch Workflow for '' @ key @ ''.'')), w)
      else
        (case remote svc (WfGet (wf_id w)) w of
           (Inl e, w1) \<Rightarrow> (Inl e, w1)
         | (Inr wfl, w1) \<Rightarrow>
             (case subscript wfl ''tasks'' of
                Inl e \<Rightarrow> (Inl e, w1)
              | Inr ts \<Rightarrow>
                  (case py_iter ts of
                     Inl e \<Rightarrow> (Inl e, w1)
                   | Inr tasks \<Rightarrow>
                       (case task_logs svc fetch key tasks w1 of
                          (Inl e, w2) \<Rightarrow> (Inl e, w2)
                        | (Inr r, w2) \<Rightarrow> (Inr (PList r), w2))))))"

definition stdout :: "service \<Rightarrow> workflow \<Rightarrow> (error + pyval) \<times> workflow" where
  "stdout = workflow_logs ''stdout'' GetStdout"

definition stderr :: "service \<Rightarrow> workflow \<Rightarrow> (error + pyval) \<times> workflow" where
  "stderr = workflow_logs ''stderr'' GetStderr"

section \<open>Clients, well-formed states and examples\<close>

text \<open>What a client does with a task between its construction and its serialisation:
  it assigns \<open>impersonation_allowed\<close> or \<open>timeout\<close>, assigns an input port, calls
  \<open>set\<close>, or reads an output with \<open>get_output\<close>. Each operation leaves the task in the
  state the call left it in, whether it raised or not.\<close>

datatype task_op =
    Assign_impersonation_allowed pyval
  | Assign_timeout int
  | Assign_input string pyval
  | Call_set "(string \<times> pyval) list"
  | Call_get_output string

fun apply_task_op :: "task_op \<Rightarrow> task \<Rightarrow> task" where
  "apply_task_op (Assign_impersonation_allowed v) t = impersonation_allowed_setter v t"
| "apply_task_op (Assign_timeout v) t = snd (timeout_setter v t)"
| "apply_task_op (Assign_input k v) t = snd (Inputs_setattr k v t)"
| "apply_task_op (Call_set kwargs) t = snd (Task_set kwargs t)"
| "apply_task_op (Call_get_output k) t = snd (get_output k t)"

definition run_task_ops :: "task_op list \<Rightarrow> task \<Rightarrow> task" where
  "run_task_ops ops t = fold apply_task_op ops t"

text \<open>The ordinary names: those that no attribute of the classes \<open>Inputs\<close> and
  \<open>Outputs\<close> has. The methods and Python's own attributes of an object have names that
  begin with two underscores, \<open>get_matching_multiplex_port\<close> apart; these are also the
  names that \<open>Outputs.__getattribute__\<close> hands to the plain lookup.\<close>

definition ordinary :: "string \<Rightarrow> bool" where
  "ordinary k = (\<not> prefix ''__'' k \<and> k \<noteq> ''get_matching_multiplex_port'')"

text \<open>The collections in which no attribute of the instance shadows a method that the
  source calls by name.\<close>

definition unshadowed :: "obj \<Rightarrow> bool" where
  "unshadowed self =
     (self ''__getattribute__'' = None \<and> self ''__setattr__'' = None
      \<and> self ''get_matching_multiplex_port'' = None)"

text \<open>The operations of a client that write ordinary input names only, and none called
  \<open>task\<close> or \<open>_portnames\<close>.\<close>

fun avoids_internal_names :: "task_op \<Rightarrow> bool" where
  "avoids_internal_names (Assign_input k v) = (ordinary k \<and> k \<notin> set [''task'', ''_portnames''])"
| "avoids_internal_names (Call_set kwargs) =
     list_all (\<lambda>kv. ordinary (fst kv) \<and> fst kv \<notin> set [''task'', ''_portnames'']) kwargs"
| "avoids_internal_names a = True"

text \<open>Two task states that differ at most in the input collection and the batch
  values.\<close>

definition same_but_ports :: "task \<Rightarrow> task \<Rightarrow> bool" where
  "same_but_ports t t' =
     (t' = t\<lparr>task_inputs := task_inputs t', task_batch_values := task_batch_values t'\<rparr>)"

text \<open>The registered names of a collection, the Port that the instance dictionary holds
  under a name, and the well-formed collections: no method is shadowed, \<open>_portnames\<close>
  holds a set of ordinary names, and each of them holds a Port.\<close>

definition names_of :: "obj \<Rightarrow> string list" where
  "names_of self = (case portnames_of self of Inr ns \<Rightarrow> ns | Inl e \<Rightarrow> [])"

definition the_port :: "obj \<Rightarrow> string \<Rightarrow> pyval port option" where
  "the_port self k = (case self k of Some a \<Rightarrow> as_port a | None \<Rightarrow> None)"

definition ports_ok :: "obj \<Rightarrow> bool" where
  "ports_ok self =
     (unshadowed self
      \<and> (case portnames_of self of
            Inr ns \<Rightarrow> distinct ns \<and> list_all (\<lambda>n. ordinary n \<and> the_port self n \<noteq> None) ns
          | Inl e \<Rightarrow> False))"

text \<open>The invariant of a port collection: it is well-formed, and the \<open>name\<close> of the Port
  that a registered name holds is that name. An instance dictionary maps a name to at most
  one attribute, so the Port is unique.\<close>

definition named_ok :: "obj \<Rightarrow> bool" where
  "named_ok self =
     (unshadowed self
      \<and> (case portnames_of self of
            Inr ns \<Rightarrow>
              distinct ns
              \<and> list_all (\<lambda>n. ordinary n \<and> map_option port_name (the_port self n) = Some n) ns
          | Inl e \<Rightarrow> False))"

text \<open>The same while \<open>PortList.__init__\<close> runs: the names are registered before the
  ports are stored, and until the port of a descriptor called \<open>task\<close> is stored that
  name holds the owning task.\<close>

definition boot_ok :: "obj \<Rightarrow> bool" where
  "boot_ok self =
     (unshadowed self
      \<and> (case portnames_of self of
            Inr ns \<Rightarrow>
              distinct ns
              \<and> list_all (\<lambda>n. ordinary n
                     \<and> (self n = None \<or> (n = ''task'' \<and> self n = Some Owner)
                          \<or> map_option port_name (the_port self n) = Some n)) ns
          | Inl e \<Rightarrow> False))"







text \<open>Registry definitions, tasks and workflows used as concrete inputs. The tasks are
  the ones the constructor returns for the definitions (lemmas \<open>producer_task_constructed\<close>
  and \<open>consumer_task_constructed\<close>).\<close>

definition no_ports_definition :: task_definition where
  "no_ports_definition =
     \<lparr>inputPortDescriptors = [], outputPortDescriptors = [], containerDescriptors = None,
      properties = [(''timeout'', PInt 7200)]\<rparr>"

definition timeout_port_definition :: task_definition where
  "timeout_port_definition =
     \<lparr>inputPortDescriptors =
        [\<lparr>d_name = ''timeout'', d_type = ''string'', d_required = None, d_description = None,
          d_multiplex = None\<rparr>],
      outputPortDescriptors = [], containerDescriptors = None,
      properties = [(''timeout'', PInt 7200)]\<rparr>"

definition task_port_definition :: task_definition where
  "task_port_definition =
     \<lparr>inputPortDescriptors =
        [\<lparr>d_name = ''task'', d_type = ''string'', d_required = None, d_description = None,
          d_multiplex = None\<rparr>],
      outputPortDescriptors = [], containerDescriptors = None, properties = []\<rparr>"

text \<open>A definition with an input port called \<open>self\<close> and two multiplex input ports
  whose names are prefixes of the names of methods.\<close>

definition shadowing_definition :: task_definition where
  "shadowing_definition =
     \<lparr>inputPortDescriptors =
        [\<lparr>d_name = ''data'', d_type = ''directory'', d_required = None, d_description = None,
          d_multiplex = None\<rparr>,
         \<lparr>d_name = ''self'', d_type = ''string'', d_required = None, d_description = None,
          d_multiplex = None\<rparr>,
         \<lparr>d_name = ''__get'', d_type = ''string'', d_required = None, d_description = None,
          d_multiplex = Some True\<rparr>,
         \<lparr>d_name = ''get_'', d_type = ''string'', d_required = None, d_description = None,
          d_multiplex = Some True\<rparr>],
      outputPortDescriptors = [], containerDescriptors = None, properties = []\<rparr>"


definition example_task :: task where
  "example_task =
     \<lparr>task_name = ''x_0f1e2d3c'', task_type = ''x'', task_definition = timeout_port_definition,
      task_domain = PStr ''default'', task_timeout = PInt 7200,
      task_inputs = Map.empty(''task'' \<mapsto> Owner, ''_portnames'' \<mapsto> Names [''timeout''],
         ''timeout'' \<mapsto> Val (PPort (Port ''timeout'' ''string'' None None PNone True False None None))),
      task_outputs = Map.empty(''_task_name'' \<mapsto> Val (PStr ''x_0f1e2d3c''), ''_portnames'' \<mapsto> Names []),
      task_batch_values = PNone, task_impersonation_allowed = PNone\<rparr>"

definition producer_definition :: task_definition where
  "producer_definition =
     \<lparr>inputPortDescriptors = [],
      outputPortDescriptors =
        [\<lparr>d_name = ''out'', d_type = ''directory'', d_required = None, d_description = None,
          d_multiplex = None\<rparr>,
         \<lparr>d_name = ''tiles'', d_type = ''directory'', d_required = None, d_description = None,
          d_multiplex = Some True\<rparr>],
      containerDescriptors = None,
      properties = [(''timeout'', PInt 7200)]\<rparr>"

definition consumer_definition :: task_definition where
  "consumer_definition =
     \<lparr>inputPortDescriptors =
        [\<lparr>d_name = ''data'', d_type = ''directory'', d_required = Some True, d_description = None,
          d_multiplex = None\<rparr>,
         \<lparr>d_name = ''flag'', d_type = ''string'', d_required = Some False, d_description = None,
          d_multiplex = None\<rparr>,
         \<lparr>d_name = ''extra'', d_type = ''string'', d_required = Some False, d_description = None,
          d_multiplex = Some True\<rparr>],
      outputPortDescriptors = [],
      containerDescriptors = Some [[(''domain'', PStr ''raid'')]],
      properties = []\<rparr>"

definition producer_task :: task where
  "producer_task =
     \<lparr>task_name = ''AOP_Strip_Processor_0f1e2d3c'', task_type = ''AOP_Strip_Processor'', task_definition = producer_definition,
      task_domain = PStr ''default'', task_timeout = PInt 7200,
      task_inputs = Map.empty(''task'' \<mapsto> Owner, ''_portnames'' \<mapsto> Names []),
      task_outputs = Map.empty(''_task_name'' \<mapsto> Val (PStr ''AOP_Strip_Processor_0f1e2d3c''),
         ''_portnames'' \<mapsto> Names [''out'', ''tiles''],
         ''out'' \<mapsto> Val (PPort (Port ''out'' ''directory'' None None
                      (PStr ''source:AOP_Strip_Processor_0f1e2d3c:out'') False False None None)),
         ''tiles'' \<mapsto> Val (PPort (Port ''tiles'' ''directory'' None None
                      (PStr ''source:AOP_Strip_Processor_0f1e2d3c:tiles'') False True None None))),
      task_batch_values = PNone, task_impersonation_allowed = PNone\<rparr>"

definition consumer_task :: task where
  "consumer_task =
     \<lparr>task_name = ''StageDataToS3_9a8b7c6d'', task_type = ''StageDataToS3'', task_definition = consumer_definition,
      task_domain = PStr ''raid'', task_timeout = PNone,
      task_inputs = Map.empty(''task'' \<mapsto> Owner,
         ''_portnames'' \<mapsto> Names [''data'', ''flag'', ''extra''],
         ''data'' \<mapsto> Val (PPort (Port ''data'' ''directory'' (Some True) None PNone True False None None)),
         ''flag'' \<mapsto> Val (PPort (Port ''flag'' ''string'' (Some False) None PNone True False None None)),
         ''extra'' \<mapsto> Val (PPort (Port ''extra'' ''string'' (Some False) None PNone True True None None))),
      task_outputs = Map.empty(''_task_name'' \<mapsto> Val (PStr ''StageDataToS3_9a8b7c6d''), ''_portnames'' \<mapsto> Names []),
      task_batch_values = PNone, task_impersonation_allowed = PNone\<rparr>"

text \<open>The Port that \<open>producer_task.outputs.out\<close> returns.\<close>

definition producer_out :: "pyval port" where
  "producer_out = Port ''out'' ''directory'' None None
     (PStr ''source:AOP_Strip_Processor_0f1e2d3c:out'') False False None None"

definition tiled_producer :: task where
  "tiled_producer = snd (get_output ''tiles_1'' producer_task)"



section \<open>Lemmas\<close>

lemma same_but_portsI:
  "t' = t\<lparr>task_inputs := i, task_batch_values := b\<rparr> \<Longrightarrow> same_but_ports t t'"
  "t' = t\<lparr>task_inputs := i\<rparr> \<Longrightarrow> same_but_ports t t'"
  "t' = t\<lparr>task_batch_values := b\<rparr> \<Longrightarrow> same_but_ports t t'"
  "same_but_ports t t"
  unfolding same_but_ports_def by simp_all

lemma same_but_ports_trans:
  "same_but_ports t t' \<Longrightarrow> same_but_ports t' t'' \<Longrightarrow> same_but_ports t t''"
  unfolding same_but_ports_def
  by (metis (no_types) task.update_convs(6,8) task.surjective)

lemma append_batch_values_same:
  "append_batch_values k xs t = (r, t') \<Longrightarrow> same_but_ports t t'"
  unfolding append_batch_values_def Let_def
  by (auto split: if_splits option.splits intro: same_but_portsI)

lemma Inputs_setattr_same:
  assumes "Inputs_setattr k v t = (r, t')"
  shows "same_but_ports t t'"
  using assms
  unfolding Inputs_setattr_def Let_def
  by (auto split: if_splits sum.splits option.splits
      intro: same_but_portsI same_but_ports_trans[OF same_but_portsI(2)[OF refl] append_batch_values_same])

lemma same_but_ports_fields:
  assumes "same_but_ports t t'"
  shows "task_timeout t' = task_timeout t"
    and "task_impersonation_allowed t' = task_impersonation_allowed t"
    and "task_outputs t' = task_outputs t"
    and "task_name t' = task_name t"
    and "task_type t' = task_type t"
    and "task_domain t' = task_domain t"
proof -
  from assms have e: "t' = t\<lparr>task_inputs := task_inputs t', task_batch_values := task_batch_values t'\<rparr>"
    by (simp add: same_but_ports_def)
  show "task_timeout t' = task_timeout t" using arg_cong[OF e, of task_timeout] by simp
  show "task_impersonation_allowed t' = task_impersonation_allowed t"
    using arg_cong[OF e, of task_impersonation_allowed] by simp
  show "task_outputs t' = task_outputs t" using arg_cong[OF e, of task_outputs] by simp
  show "task_name t' = task_name t" using arg_cong[OF e, of task_name] by simp
  show "task_type t' = task_type t" using arg_cong[OF e, of task_type] by simp
  show "task_domain t' = task_domain t" using arg_cong[OF e, of task_domain] by simp
qed

lemma Task_set_items_same: "Task_set_items kw t = (r, t') \<Longrightarrow> same_but_ports t t'"
proof (induction kw arbitrary: t)
  case Nil
  then show ?case by (simp add: same_but_portsI)
next
  case (Cons a kw)
  obtain k v where a: "a = (k, v)" by (cases a)
  define x where "x = (case v of PPort p \<Rightarrow> port_value p | _ \<Rightarrow> v)"
  obtain r1 t1 where r: "Inputs_setattr k x t = (r1, t1)"
    by (cases "Inputs_setattr k x t")
  note f = Inputs_setattr_same[OF r]
  show ?case
  proof (cases "task_inputs t ''__setattr__'' \<noteq> None")
    case True
    with Cons.prems a have "t' = t" by auto
    then show ?thesis by (simp add: same_but_portsI)
  next
    case False
    show ?thesis
    proof (cases r1)
      case (Inl e)
      with Cons.prems a r False have "t' = t1" by (simp add: x_def)
      with f show ?thesis by simp
    next
      case (Inr u)
      with Cons.prems a r False have "Task_set_items kw t1 = (r, t')" by (simp add: x_def)
      from Cons.IH[OF this] f show ?thesis by (blast intro: same_but_ports_trans)
    qed
  qed
qed

lemma Task_set_same: "Task_set kw t = (r, t') \<Longrightarrow> same_but_ports t t'"
  unfolding Task_set_def
  by (auto split: if_splits intro: same_but_portsI Task_set_items_same)

lemma PortList_init_ports_same: "PortList_init_ports ps t = (r, t') \<Longrightarrow> same_but_ports t t'"
proof (induction ps arbitrary: t)
  case Nil
  then show ?case by (simp add: same_but_portsI)
next
  case (Cons p ps)
  define x where "x = PPort (Port (d_name p) (d_type p) (d_required p) (d_description p) PNone True
                (case d_multiplex p of Some b \<Rightarrow> b | None \<Rightarrow> False) None None)"
  obtain r1 t1 where r: "Inputs_setattr (d_name p) x t = (r1, t1)"
    by (cases "Inputs_setattr (d_name p) x t")
  note f = Inputs_setattr_same[OF r]
  show ?case
  proof (cases "task_inputs t ''__setattr__'' \<noteq> None")
    case True
    with Cons.prems have "t' = t" by auto
    then show ?thesis by (simp add: same_but_portsI)
  next
    case False
    show ?thesis
    proof (cases r1)
      case (Inl e)
      with Cons.prems r False have "t' = t1" by (simp add: x_def)
      with f show ?thesis by simp
    next
      case (Inr u)
      with Cons.prems r False have "PortList_init_ports ps t1 = (r, t')" by (simp add: x_def)
      from Cons.IH[OF this] f show ?thesis by (blast intro: same_but_ports_trans)
    qed
  qed
qed

lemma Task_init_Inr:
  assumes "Task_init ty uuid d kwargs = Inr t"
  obtains dmn t1 outs where
    "''self'' \<notin> set (map fst kwargs)"
    "definition_domain d = Inr dmn"
    "Inputs_init (inputPortDescriptors d)
       \<lparr>task_name = py_replace '':'' ''_'' (ty @ ''_'' @ take 8 uuid), task_type = ty,
        task_definition = d, task_domain = dmn,
        task_timeout = (case dict_get (properties d) ''timeout'' of Some v \<Rightarrow> v | None \<Rightarrow> PNone),
        task_inputs = Map.empty, task_outputs = Map.empty,
        task_batch_values = PNone, task_impersonation_allowed = PNone\<rparr> = (Inr (), t1)"
    "Outputs_init (outputPortDescriptors d) (py_replace '':'' ''_'' (ty @ ''_'' @ take 8 uuid))
       = Inr outs"
    "Task_set kwargs (t1\<lparr>task_outputs := outs, task_batch_values := PNone,
                         task_impersonation_allowed := PNone\<rparr>) = (Inr (), t)"
proof -
  define nm where "nm = py_replace '':'' ''_'' (ty @ ''_'' @ take 8 uuid)"
  have kw: "\<not> (''self'' \<in> set (map fst kwargs) \<or> ''_Task__task_type'' \<in> set (map fst kwargs))"
  proof
    assume "''self'' \<in> set (map fst kwargs) \<or> ''_Task__task_type'' \<in> set (map fst kwargs)"
    with assms show False by (simp add: Task_init_def)
  qed
  from assms kw obtain dmn where dmn: "definition_domain d = Inr dmn"
    by (cases "definition_domain d") (simp_all add: Task_init_def)
  define t0 where "t0 = \<lparr>task_name = nm, task_type = ty, task_definition = d, task_domain = dmn,
                      task_timeout =
                        (case dict_get (properties d) ''timeout'' of Some v \<Rightarrow> v | None \<Rightarrow> PNone),
                      task_inputs = Map.empty, task_outputs = Map.empty,
                      task_batch_values = PNone, task_impersonation_allowed = PNone\<rparr>"
  obtain r1 t1 where r1: "Inputs_init (inputPortDescriptors d) t0 = (r1, t1)"
    by (cases "Inputs_init (inputPortDescriptors d) t0")
  from assms kw dmn r1 have u: "r1 = Inr ()"
    by (cases r1) (simp_all add: Task_init_def Let_def nm_def t0_def)
  from assms kw dmn r1 u obtain outs where outs: "Outputs_init (outputPortDescriptors d) nm = Inr outs"
    by (cases "Outputs_init (outputPortDescriptors d) nm") (simp_all add: Task_init_def Let_def nm_def t0_def)
  define t1' where "t1' = t1\<lparr>task_outputs := outs, task_batch_values := PNone,
                                task_impersonation_allowed := PNone\<rparr>"
  obtain r2 t2 where r2: "Task_set kwargs t1' = (r2, t2)" by (cases "Task_set kwargs t1'")
  from assms kw dmn r1 u outs r2 have t: "r2 = Inr () \<and> t2 = t"
    by (cases r2) (simp_all add: Task_init_def Let_def nm_def t0_def t1'_def)
  from kw have k: "''self'' \<notin> set (map fst kwargs)" by simp
  from r2 t have r2': "Task_set kwargs t1' = (Inr (), t)" by simp
  show thesis
    by (rule that[OF k dmn r1[unfolded u t0_def nm_def] outs[unfolded nm_def] r2'[unfolded t1'_def]])
qed

lemma Task_init_fields:
  assumes "Task_init ty uuid d kwargs = Inr t"
  shows "task_timeout t = (case dict_get (properties d) ''timeout'' of Some v \<Rightarrow> v | None \<Rightarrow> PNone)"
    and "task_impersonation_allowed t = PNone"
    and "task_name t = py_replace '':'' ''_'' (ty @ ''_'' @ take 8 uuid)"
    and "Outputs_init (outputPortDescriptors d) (task_name t) = Inr (task_outputs t)"
proof -
  from assms obtain dmn t1 outs where
    r1: "Inputs_init (inputPortDescriptors d)
       \<lparr>task_name = py_replace '':'' ''_'' (ty @ ''_'' @ take 8 uuid), task_type = ty,
        task_definition = d, task_domain = dmn,
        task_timeout = (case dict_get (properties d) ''timeout'' of Some v \<Rightarrow> v | None \<Rightarrow> PNone),
        task_inputs = Map.empty, task_outputs = Map.empty,
        task_batch_values = PNone, task_impersonation_allowed = PNone\<rparr> = (Inr (), t1)"
    and outs: "Outputs_init (outputPortDescriptors d) (py_replace '':'' ''_'' (ty @ ''_'' @ take 8 uuid))
       = Inr outs"
    and r2: "Task_set kwargs (t1\<lparr>task_outputs := outs, task_batch_values := PNone,
                         task_impersonation_allowed := PNone\<rparr>) = (Inr (), t)"
    by (rule Task_init_Inr)
  from r1 have s1: "same_but_ports (\<lparr>task_name = py_replace '':'' ''_'' (ty @ ''_'' @ take 8 uuid),
        task_type = ty, task_definition = d, task_domain = dmn,
        task_timeout = (case dict_get (properties d) ''timeout'' of Some v \<Rightarrow> v | None \<Rightarrow> PNone),
        task_inputs = Map.empty, task_outputs = Map.empty,
        task_batch_values = PNone, task_impersonation_allowed = PNone\<rparr>
        \<lparr>task_inputs := Map.empty(''task'' \<mapsto> Owner,
           ''_portnames'' \<mapsto> Names (remdups (map d_name (inputPortDescriptors d))))\<rparr>) t1"
    unfolding Inputs_init_def by (rule PortList_init_ports_same)
  from same_but_ports_fields[OF s1]
  have 1: "task_timeout t1 = (case dict_get (properties d) ''timeout'' of Some v \<Rightarrow> v | None \<Rightarrow> PNone)"
    "task_name t1 = py_replace '':'' ''_'' (ty @ ''_'' @ take 8 uuid)"
    by simp_all
  note 2 = same_but_ports_fields[OF Task_set_same[OF r2]]
  show "task_timeout t = (case dict_get (properties d) ''timeout'' of Some v \<Rightarrow> v | None \<Rightarrow> PNone)"
    using 1 2(1) by simp
  show "task_impersonation_allowed t = PNone"
    using 2(2) by simp
  show n: "task_name t = py_replace '':'' ''_'' (ty @ ''_'' @ take 8 uuid)"
    using 1 2(4) by simp
  show "Outputs_init (outputPortDescriptors d) (task_name t) = Inr (task_outputs t)"
    using outs 2(3) n by simp
qed

lemmas eval_defs = Task_init_def Inputs_init_def Outputs_init_def Inputs_setattr_def portnames_of_def port_at_def
  get_matching_multiplex_port_def definition_domain_def timeout_def set_port_value_def Let_def
  no_ports_definition_def timeout_port_definition_def set_add_def append_batch_values_def
  task_name_of_def Task_set_def

lemma str_int_examples: "str_int 0 = ''0''" "str_int 172800 = ''172800''" "str_int (- 5) = ''-5''"
  by (simp_all add: str_int_def str_nat.simps)

lemma timeout_setter_same: "task_impersonation_allowed (snd (timeout_setter v t)) = task_impersonation_allowed t"
  by (simp add: timeout_setter_def)

lemma get_output_same: "task_impersonation_allowed (snd (get_output k t)) = task_impersonation_allowed t"
  by (simp add: get_output_def split: prod.splits sum.splits)

lemma apply_task_op_impersonation:
  "task_impersonation_allowed (apply_task_op a t) =
     (if a = Assign_impersonation_allowed (PBool True) then PBool True
      else task_impersonation_allowed t)"
proof (cases a)
  case (Assign_impersonation_allowed v)
  then show ?thesis by (simp add: impersonation_allowed_setter_def)
next
  case (Assign_timeout v)
  then show ?thesis by (simp add: timeout_setter_same)
next
  case (Assign_input k v)
  then show ?thesis
    using same_but_ports_fields(2)[OF Inputs_setattr_same[of k v t "fst (Inputs_setattr k v t)" "snd (Inputs_setattr k v t)"]]
    by simp
next
  case (Call_set kw)
  then show ?thesis
    using same_but_ports_fields(2)[OF Task_set_same[of kw t "fst (Task_set kw t)" "snd (Task_set kw t)"]]
    by simp
next
  case (Call_get_output k)
  then show ?thesis by (simp add: get_output_same)
qed

lemma run_task_ops_impersonation:
  "task_impersonation_allowed (run_task_ops ops t) =
     (if Assign_impersonation_allowed (PBool True) \<in> set ops then PBool True
      else task_impersonation_allowed t)"
  unfolding run_task_ops_def
  by (induction ops arbitrary: t) (auto simp: apply_task_op_impersonation simp del: apply_task_op.simps)

lemma generate_task_workflow_json_impersonation:
  assumes "generate_task_workflow_json excl t = (Inr (PDict r), t')"
  shows "dict_get r ''impersonation_allowed'' =
     (if truthy (task_impersonation_allowed t) then Some (task_impersonation_allowed t) else None)"
  using assms
  by (auto simp: generate_task_workflow_json_def task_record_def impersonation_allowed_def
      split: sum.splits prod.splits)

lemmas eval_json_defs = run_task_ops_def generate_task_workflow_json_def output_portnames_def
  Outputs_getattribute_def object_getattribute_def output_entry_def output_port_at_def
  task_record_def input_entry_def impersonation_allowed_def impersonation_allowed_setter_def
  persist_def persist_location_def example_task_def


lemma consumer_task_constructed:
  "Task_init ''StageDataToS3'' ''9a8b7c6d-0000-4000-8000-000000000000'' consumer_definition [] = Inr consumer_task"
  by (simp add: eval_defs consumer_definition_def consumer_task_def)



lemma the_port_Some:
  "the_port self k = Some p \<Longrightarrow> self ''__getattribute__'' = None \<Longrightarrow> port_at self k = Inr p"
  by (auto simp: the_port_def port_at_def split: option.splits)



lemma as_port_Some: "as_port a = Some p \<Longrightarrow> a = Val (PPort p)"
  by (cases a rule: as_port.cases) simp_all

lemma port_at_the_port: "port_at self k = Inr p \<Longrightarrow> self k = Some (Val (PPort p))"
  unfolding port_at_def
  by (auto split: if_splits option.splits dest: as_port_Some)

lemma the_port_attr: "the_port self k = Some p \<Longrightarrow> self k = Some (Val (PPort p))"
  unfolding the_port_def
  by (auto split: option.splits dest: as_port_Some)

lemma portnames_of_attr: "portnames_of self = Inr ns \<Longrightarrow> self ''_portnames'' = Some (Names ns)"
  by (auto simp: portnames_of_def split: option.splits attr.splits)

lemma append_batch_values_ok:
  assumes "task_inputs t ''task'' = Some Owner"
    and "task_batch_values t = PNone \<or> (\<exists>bs. task_batch_values t = PList bs)"
  shows "append_batch_values k xs t =
     (Inr (), t\<lparr>task_batch_values := PList
          ((case task_batch_values t of PList bs \<Rightarrow> bs | _ \<Rightarrow> [])
           @ [PDict [(''name'', PStr (''batch_input_'' @ k)), (''values'', PList xs)]])\<rparr>)"
proof -
  from assms(2) consider "task_batch_values t = PNone" | bs where "task_batch_values t = PList bs"
    by blast
  then show ?thesis
  proof cases
    case 1
    with assms(1) show ?thesis by (simp add: append_batch_values_def)
  next
    case 2
    with assms(1) show ?thesis by (cases bs) (simp_all add: append_batch_values_def)
  qed
qed

lemmas example_defs = consumer_task_def producer_task_def consumer_definition_def
  producer_definition_def task_port_definition_def

lemma ordinary_not_method:
  assumes "ordinary k"
  shows "k \<noteq> ''__getattribute__''" and "k \<noteq> ''__setattr__''"
    and "k \<noteq> ''get_matching_multiplex_port''"
  using assms by (auto simp: ordinary_def)

lemma unshadowed_update:
  "unshadowed self \<Longrightarrow> ordinary k \<Longrightarrow> unshadowed (self(k \<mapsto> a))"
  "unshadowed self \<Longrightarrow> ordinary k \<Longrightarrow> unshadowed (self(k \<mapsto> a, ''_portnames'' \<mapsto> b))"
  using ordinary_not_method[of k] by (simp_all add: unshadowed_def)

lemma ports_okD:
  assumes "ports_ok self"
  shows "portnames_of self = Inr (names_of self)"
    and "n \<in> set (names_of self) \<Longrightarrow> \<exists>p. the_port self n = Some p"
    and "self ''__getattribute__'' = None"
    and "self ''__setattr__'' = None"
    and "self ''get_matching_multiplex_port'' = None"
    and "distinct (names_of self)"
    and "n \<in> set (names_of self) \<Longrightarrow> ordinary n"
    and "unshadowed self"
proof -
  from assms obtain ns where ns: "portnames_of self = Inr ns" and d: "distinct ns"
    and l: "list_all (\<lambda>n. ordinary n \<and> the_port self n \<noteq> None) ns"
    by (cases "portnames_of self") (simp_all add: ports_ok_def)
  have nm: "names_of self = ns" by (simp add: names_of_def ns)
  from assms show u: "unshadowed self" by (simp add: ports_ok_def)
  from u show "self ''__getattribute__'' = None" "self ''__setattr__'' = None"
    "self ''get_matching_multiplex_port'' = None"
    by (simp_all add: unshadowed_def)
  show "portnames_of self = Inr (names_of self)" by (simp only: nm ns)
  show "distinct (names_of self)" by (simp only: nm d)
  show "\<exists>p. the_port self n = Some p" if "n \<in> set (names_of self)"
    using that l unfolding nm by (auto simp: list_all_iff)
  show "ordinary n" if "n \<in> set (names_of self)"
    using that l unfolding nm by (auto simp: list_all_iff)
qed















lemma tiled_producer_outputs:
  "task_outputs tiled_producer =
     (task_outputs producer_task)
       (''tiles_1'' \<mapsto> Val (PPort (Port ''tiles'' ''directory'' None None
           (PStr ''source:AOP_Strip_Processor_0f1e2d3c:tiles_1'') False False None None)),
        ''_portnames'' \<mapsto> Names [''out'', ''tiles'', ''tiles_1''])"
  "task_inputs tiled_producer = task_inputs producer_task"
  "task_name tiled_producer = ''AOP_Strip_Processor_0f1e2d3c''"
  by (simp_all add: tiled_producer_def get_output_def output_port_at_def Outputs_getattribute_def
      producer_task_def portnames_of_def get_matching_multiplex_port_def port_at_def
      task_name_of_def set_add_def object_getattribute_def)


lemmas ok_defs = ports_ok_def portnames_of_def the_port_def port_at_def names_of_def
  unshadowed_def ordinary_def



lemma ports_ok_not_reserved:
  assumes "ports_ok self" and "x \<in> set (names_of self)"
  shows "x \<noteq> ''_portnames''"
proof
  assume "x = ''_portnames''"
  with ports_okD(2)[OF assms] obtain p where "the_port self ''_portnames'' = Some p" by blast
  from the_port_attr[OF this] portnames_of_attr[OF ports_okD(1)[OF assms(1)]] show False by simp
qed


lemma the_port_update:
  "the_port (self(x \<mapsto> Val (PPort p))) n = (if n = x then Some p else the_port self n)"
  by (simp add: the_port_def)


lemma producer_out_read:
  "Outputs_getattribute ''out'' (task_outputs producer_task)
     = (Inr (Val (PPort producer_out)), task_outputs producer_task)"
  by (simp add: Outputs_getattribute_def producer_task_def producer_out_def portnames_of_def
      object_getattribute_def)

lemma named_ok_ports_ok: "named_ok self \<Longrightarrow> ports_ok self"
  by (auto simp: named_ok_def ports_ok_def list_all_iff split: sum.splits)

lemma named_okD:
  assumes "named_ok self"
  shows "portnames_of self = Inr (names_of self)"
    and "n \<in> set (names_of self) \<Longrightarrow> \<exists>p. the_port self n = Some p \<and> port_name p = n"
  using assms by (auto simp: named_ok_def names_of_def list_all_iff split: sum.splits)

lemma named_okI:
  assumes "ports_ok self"
    and "\<And>n. n \<in> set (names_of self) \<Longrightarrow> map_option port_name (the_port self n) = Some n"
  shows "named_ok self"
  using assms(2) ports_okD(1,6,7,8)[OF assms(1)]
  unfolding named_ok_def by (simp add: list_all_iff)

lemma the_port_other:
  "n \<noteq> k \<Longrightarrow> n \<noteq> ''_portnames'' \<Longrightarrow>
   the_port (self(k \<mapsto> a, ''_portnames'' \<mapsto> b)) n = the_port self n"
  by (simp add: the_port_def)

lemma the_port_new:
  "k \<noteq> ''_portnames'' \<Longrightarrow>
   the_port (self(k \<mapsto> Val (PPort p), ''_portnames'' \<mapsto> b)) k = Some p"
  by (simp add: the_port_def)

lemma names_of_registered:
  "names_of (self(k \<mapsto> a, ''_portnames'' \<mapsto> Names ns)) = ns"
  "portnames_of (self(k \<mapsto> a, ''_portnames'' \<mapsto> Names ns)) = Inr ns"
  by (simp_all add: names_of_def portnames_of_def)

lemma ports_ok_register:
  assumes "ports_ok self" and "k \<noteq> ''_portnames''" and "ordinary k"
  shows "ports_ok (self(k \<mapsto> Val (PPort p), ''_portnames'' \<mapsto> Names (set_add (names_of self) k)))"
proof -
  have "ordinary n
        \<and> the_port (self(k \<mapsto> Val (PPort p), ''_portnames'' \<mapsto> Names (set_add (names_of self) k))) n
        \<noteq> None"
    if "n \<in> set (set_add (names_of self) k)" for n
  proof (cases "n = k")
    case True
    with assms(2,3) show ?thesis by (simp add: the_port_new)
  next
    case False
    with that have n: "n \<in> set (names_of self)" by (auto simp: set_add_def split: if_splits)
    from ports_ok_not_reserved[OF assms(1) n] False ports_okD(2)[OF assms(1) n]
      ports_okD(7)[OF assms(1) n]
    show ?thesis by (auto simp: the_port_other)
  qed
  moreover have "distinct (set_add (names_of self) k)"
    using ports_okD(6)[OF assms(1)] by (simp add: set_add_def)
  moreover note unshadowed_update(2)[OF ports_okD(8)[OF assms(1)] assms(3)]
  ultimately show ?thesis
    unfolding ports_ok_def names_of_registered by (simp add: list_all_iff)
qed

lemma named_ok_register:
  assumes "named_ok self" and "k \<noteq> ''_portnames''" and "ordinary k" and "port_name p = k"
  shows "named_ok (self(k \<mapsto> Val (PPort p), ''_portnames'' \<mapsto> Names (set_add (names_of self) k)))"
proof (rule named_okI)
  let ?self' = "self(k \<mapsto> Val (PPort p), ''_portnames'' \<mapsto> Names (set_add (names_of self) k))"
  show "ports_ok ?self'"
    by (rule ports_ok_register[OF named_ok_ports_ok[OF assms(1)] assms(2,3)])
  fix n assume "n \<in> set (names_of ?self')"
  then have that: "n \<in> set (set_add (names_of self) k)" by (simp only: names_of_registered)
  show "map_option port_name (the_port ?self' n) = Some n"
  proof (cases "n = k")
    case True
    with assms(2,4) show ?thesis by (simp add: the_port_new)
  next
    case False
    with that have n: "n \<in> set (names_of self)" by (auto simp: set_add_def split: if_splits)
    from ports_ok_not_reserved[OF named_ok_ports_ok[OF assms(1)] n] False named_okD(2)[OF assms(1) n]
    show ?thesis by (auto simp: the_port_other)
  qed
qed

lemma register_known:
  assumes "portnames_of self = Inr ns" and "k \<in> set ns" and "k \<noteq> ''_portnames''"
  shows "self(k \<mapsto> a, ''_portnames'' \<mapsto> Names (set_add (names_of self) k)) = self(k \<mapsto> a)"
proof -
  from assms have "set_add (names_of self) k = ns" by (simp add: names_of_def set_add_def)
  then show ?thesis using portnames_of_attr[OF assms(1)] assms(3)
    by (auto simp: fun_eq_iff)
qed

lemma append_batch_values_inputs:
  "task_inputs (snd (append_batch_values k xs t)) = task_inputs t"
  by (simp add: append_batch_values_def Let_def split: option.splits)

lemma Inputs_setattr_inputs:
  assumes "named_ok (task_inputs t)" and "k \<noteq> ''task''" and "k \<noteq> ''_portnames''"
  shows "task_inputs (snd (Inputs_setattr k v t)) = task_inputs t
     \<or> (\<exists>p. port_name p = k
          \<and> task_inputs (snd (Inputs_setattr k v t))
              = (task_inputs t)(k \<mapsto> Val (PPort p),
                   ''_portnames'' \<mapsto> Names (set_add (names_of (task_inputs t)) k)))"
proof -
  let ?self = "task_inputs t"
  note pn = named_okD(1)[OF assms(1)]
  note un = ports_okD(3)[OF named_ok_ports_ok[OF assms(1)]]
  show ?thesis
  proof (cases "k \<in> set (names_of ?self)")
    case True
    from named_okD(2)[OF assms(1) True] obtain p where p: "the_port ?self k = Some p"
      and n: "port_name p = k" by blast
    note a = the_port_attr[OF p] and pa = the_port_Some[OF p un]
    note rk = register_known[OF pn True assms(3)]
    show ?thesis
    proof (cases "as_list v")
      case None
      have "task_inputs (snd (Inputs_setattr k v t)) = ?self(k \<mapsto> Val (PPort (set_port_value v p)))"
        using assms(2,3) pn True a pa None by (simp add: Inputs_setattr_def Let_def)
      then have "task_inputs (snd (Inputs_setattr k v t))
          = ?self(k \<mapsto> Val (PPort (set_port_value v p)),
              ''_portnames'' \<mapsto> Names (set_add (names_of ?self) k))"
        by (simp only: rk)
      moreover have "port_name (set_port_value v p) = k" using n by (simp add: set_port_value_def)
      ultimately show ?thesis by blast
    next
      case (Some xs)
      have "task_inputs (snd (Inputs_setattr k v t))
          = ?self(k \<mapsto> Val (PPort (set_port_value (PStr (''{{'' @ ''batch_input_'' @ k @ ''}}'')) p)))"
        using assms(2,3) pn True a pa Some
        by (simp add: Inputs_setattr_def Let_def append_batch_values_inputs)
      then have "task_inputs (snd (Inputs_setattr k v t))
          = ?self(k \<mapsto> Val (PPort (set_port_value (PStr (''{{'' @ ''batch_input_'' @ k @ ''}}'')) p)),
              ''_portnames'' \<mapsto> Names (set_add (names_of ?self) k))"
        by (simp only: rk)
      moreover have "port_name (set_port_value (PStr (''{{'' @ ''batch_input_'' @ k @ ''}}'')) p) = k"
        using n by (simp add: set_port_value_def)
      ultimately show ?thesis by blast
    qed
  next
    case False
    show ?thesis
    proof (cases "get_matching_multiplex_port ?self k")
      case (Inl e)
      with assms(2,3) pn False show ?thesis by (simp add: Inputs_setattr_def Let_def)
    next
      case (Inr m)
      show ?thesis
      proof (cases m)
        case None
        with Inr assms(2,3) pn False show ?thesis by (simp add: Inputs_setattr_def Let_def)
      next
        case (Some mp)
        let ?p = "Port k (port_type mp) (port_required mp) (port_description mp) v True False None None"
        have "task_inputs (snd (Inputs_setattr k v t))
            = ?self(k \<mapsto> Val (PPort ?p), ''_portnames'' \<mapsto> Names (set_add (names_of ?self) k))"
          using Some Inr assms(2,3) pn False by (simp add: Inputs_setattr_def Let_def)
        moreover have "port_name ?p = k" by simp
        ultimately show ?thesis by blast
      qed
    qed
  qed
qed

lemma Inputs_setattr_named_ok:
  assumes "named_ok (task_inputs t)" and "k \<noteq> ''task''" and "k \<noteq> ''_portnames''"
    and "ordinary k"
  shows "named_ok (task_inputs (snd (Inputs_setattr k v t)))"
  using Inputs_setattr_inputs[OF assms(1,2,3), of v] named_ok_register[OF assms(1,3,4)] assms(1)
  by auto

lemma Outputs_getattribute_state:
  assumes "ports_ok outs"
  shows "snd (Outputs_getattribute k outs) = outs
     \<or> (k \<noteq> ''_portnames'' \<and> ordinary k \<and> k \<notin> set (names_of outs)
         \<and> (\<exists>p. snd (Outputs_getattribute k outs)
               = outs(k \<mapsto> Val (PPort p),
                   ''_portnames'' \<mapsto> Names (set_add (names_of outs) k))))"
proof (cases "k \<in> set [''_portnames'', ''_task_name'', ''get_matching_multiplex_port'']
          \<or> prefix ''__'' k")
  case True
  then show ?thesis by (simp add: Outputs_getattribute_def)
next
  case False
  note special = this
  then have k: "k \<noteq> ''_portnames''" and o: "ordinary k" by (auto simp: ordinary_def)
  note pn = ports_okD(1)[OF assms]
  note sa = ports_okD(4)[OF assms]
  show ?thesis
  proof (cases "k \<in> set (names_of outs)")
    case True
    with special pn show ?thesis by (simp add: Outputs_getattribute_def)
  next
    case False
    show ?thesis
    proof (cases "get_matching_multiplex_port outs k")
      case (Inl e)
      with special pn False show ?thesis by (simp add: Outputs_getattribute_def)
    next
      case (Inr m)
      show ?thesis
      proof (cases m)
        case None
        with Inr special pn False show ?thesis by (simp add: Outputs_getattribute_def)
      next
        case (Some mp)
        show ?thesis
        proof (cases "task_name_of outs")
          case (Inl e)
          with Some Inr special pn False show ?thesis by (simp add: Outputs_getattribute_def)
        next
          case tn: (Inr tn)
          have "snd (Outputs_getattribute k outs)
              = outs(k \<mapsto> Val (PPort (Port (port_name mp) (port_type mp)
                                    (port_required mp) (port_description mp)
                                    (PStr (''source:'' @ tn @ '':'' @ k)) False False None None)),
                   ''_portnames'' \<mapsto> Names (set_add (names_of outs) k))"
            using Some Inr special pn False tn sa
            by (simp add: Outputs_getattribute_def Let_def)
          with k o False show ?thesis by blast
        qed
      qed
    qed
  qed
qed

lemma Outputs_getattribute_ports_ok:
  assumes "ports_ok outs"
  shows "ports_ok (snd (Outputs_getattribute k outs))"
    and "n \<in> set (names_of outs) \<Longrightarrow> n \<in> set (names_of (snd (Outputs_getattribute k outs)))"
    and "n \<in> set (names_of outs) \<Longrightarrow>
           the_port (snd (Outputs_getattribute k outs)) n = the_port outs n"
proof -
  from Outputs_getattribute_state[OF assms, of k]
  consider "snd (Outputs_getattribute k outs) = outs"
    | p where "k \<noteq> ''_portnames''" "ordinary k" "k \<notin> set (names_of outs)"
        "snd (Outputs_getattribute k outs)
           = outs(k \<mapsto> Val (PPort p), ''_portnames'' \<mapsto> Names (set_add (names_of outs) k))"
    by blast
  note c = this
  show "ports_ok (snd (Outputs_getattribute k outs))"
    using c assms by cases (simp_all add: ports_ok_register)
  show "n \<in> set (names_of (snd (Outputs_getattribute k outs)))" if "n \<in> set (names_of outs)"
    using c that by cases (simp_all add: names_of_registered set_add_def)
  show "the_port (snd (Outputs_getattribute k outs)) n = the_port outs n"
    if "n \<in> set (names_of outs)"
    using c
  proof cases
    case 1
    then show ?thesis by simp
  next
    case (2 p)
    from that 2(3) have "n \<noteq> k" by auto
    with ports_ok_not_reserved[OF assms that] 2(4) show ?thesis by (simp add: the_port_other)
  qed
qed

lemma Task_set_items_named_ok:
  "named_ok (task_inputs t) \<Longrightarrow>
   list_all (\<lambda>kv. ordinary (fst kv) \<and> fst kv \<notin> set [''task'', ''_portnames'']) kw \<Longrightarrow>
   named_ok (task_inputs (snd (Task_set_items kw t)))"
proof (induction kw arbitrary: t)
  case Nil
  then show ?case by simp
next
  case (Cons a kw)
  obtain k v where a: "a = (k, v)" by (cases a)
  define x where "x = (case v of PPort p \<Rightarrow> port_value p | _ \<Rightarrow> v)"
  obtain r1 t1 where r: "Inputs_setattr k x t = (r1, t1)" by (cases "Inputs_setattr k x t")
  from Cons.prems(2) a have k: "k \<noteq> ''task''" "k \<noteq> ''_portnames''" "ordinary k" by simp_all
  from Inputs_setattr_named_ok[OF Cons.prems(1) k, of x] r have ok: "named_ok (task_inputs t1)"
    by simp
  note sa = ports_okD(4)[OF named_ok_ports_ok[OF Cons.prems(1)]]
  show ?case
  proof (cases r1)
    case (Inl e)
    with a r ok sa show ?thesis by (simp add: x_def)
  next
    case (Inr u)
    from Cons.IH[OF ok] Cons.prems(2) have "named_ok (task_inputs (snd (Task_set_items kw t1)))" by simp
    with Inr a r sa show ?thesis by (simp add: x_def)
  qed
qed

lemma Task_set_named_ok:
  "named_ok (task_inputs t) \<Longrightarrow>
   list_all (\<lambda>kv. ordinary (fst kv) \<and> fst kv \<notin> set [''task'', ''_portnames'']) kw \<Longrightarrow>
   named_ok (task_inputs (snd (Task_set kw t)))"
  by (simp add: Task_set_def Task_set_items_named_ok)

lemma get_output_state:
  "task_inputs (snd (get_output k t)) = task_inputs t"
  "ports_ok (task_outputs t) \<Longrightarrow>
     task_outputs (snd (get_output k t)) = snd (Outputs_getattribute k (task_outputs t))"
  by (simp_all add: get_output_def output_port_at_def ports_okD(3)
      split: prod.splits sum.splits option.splits)

lemma apply_task_op_outputs:
  assumes "ports_ok (task_outputs t)"
  shows "ports_ok (task_outputs (apply_task_op a t))"
    and "n \<in> set (names_of (task_outputs t)) \<Longrightarrow>
           n \<in> set (names_of (task_outputs (apply_task_op a t)))
           \<and> the_port (task_outputs (apply_task_op a t)) n = the_port (task_outputs t) n"
    and "task_name (apply_task_op a t) = task_name t"
proof -
  have "task_outputs (apply_task_op a t) = task_outputs t
      \<or> (\<exists>k. task_outputs (apply_task_op a t) = snd (Outputs_getattribute k (task_outputs t)))"
  proof (cases a)
    case (Assign_impersonation_allowed v)
    then show ?thesis by (simp add: impersonation_allowed_setter_def)
  next
    case (Assign_timeout v)
    then show ?thesis by (simp add: timeout_setter_def)
  next
    case (Assign_input k v)
    from same_but_ports_fields(3)[OF Inputs_setattr_same[of k v t "fst (Inputs_setattr k v t)"
          "snd (Inputs_setattr k v t)"]] Assign_input
    show ?thesis by simp
  next
    case (Call_set kw)
    from same_but_ports_fields(3)[OF Task_set_same[of kw t "fst (Task_set kw t)" "snd (Task_set kw t)"]]
      Call_set
    show ?thesis by simp
  next
    case (Call_get_output k)
    with get_output_state(2)[OF assms, of k] show ?thesis by auto
  qed
  with Outputs_getattribute_ports_ok[OF assms] assms
  show "ports_ok (task_outputs (apply_task_op a t))"
    and "n \<in> set (names_of (task_outputs t)) \<Longrightarrow>
           n \<in> set (names_of (task_outputs (apply_task_op a t)))
           \<and> the_port (task_outputs (apply_task_op a t)) n = the_port (task_outputs t) n"
    by auto
  show "task_name (apply_task_op a t) = task_name t"
  proof (cases a)
    case (Assign_impersonation_allowed v)
    then show ?thesis by (simp add: impersonation_allowed_setter_def)
  next
    case (Assign_timeout v)
    then show ?thesis by (simp add: timeout_setter_def)
  next
    case (Assign_input k v)
    from same_but_ports_fields(4)[OF Inputs_setattr_same[of k v t "fst (Inputs_setattr k v t)"
          "snd (Inputs_setattr k v t)"]] Assign_input
    show ?thesis by simp
  next
    case (Call_set kw)
    from same_but_ports_fields(4)[OF Task_set_same[of kw t "fst (Task_set kw t)" "snd (Task_set kw t)"]]
      Call_set
    show ?thesis by simp
  next
    case (Call_get_output k)
    then show ?thesis by (simp add: get_output_def split: prod.splits sum.splits)
  qed
qed


lemma apply_task_op_invariant:
  assumes "named_ok (task_inputs t)" and "ports_ok (task_outputs t)" and "avoids_internal_names a"
  shows "named_ok (task_inputs (apply_task_op a t)) \<and> ports_ok (task_outputs (apply_task_op a t))"
proof (cases a)
  case (Assign_impersonation_allowed v)
  with assms show ?thesis by (simp add: impersonation_allowed_setter_def)
next
  case (Assign_timeout v)
  with assms show ?thesis by (simp add: timeout_setter_def)
next
  case (Assign_input k v)
  with assms(3) have k: "k \<noteq> ''task''" "k \<noteq> ''_portnames''" "ordinary k" by simp_all
  from Inputs_setattr_named_ok[OF assms(1) k, of v] apply_task_op_outputs(1)[OF assms(2), of a]
    Assign_input
  show ?thesis by simp
next
  case (Call_set kw)
  with Task_set_named_ok[OF assms(1), of kw] assms(3) apply_task_op_outputs(1)[OF assms(2), of a]
  show ?thesis by simp
next
  case (Call_get_output k)
  with assms(1) apply_task_op_outputs(1)[OF assms(2), of a] show ?thesis
    by (simp add: get_output_state(1))
qed

lemma run_task_ops_invariant:
  "named_ok (task_inputs t) \<Longrightarrow> ports_ok (task_outputs t) \<Longrightarrow> list_all avoids_internal_names ops \<Longrightarrow>
   named_ok (task_inputs (run_task_ops ops t)) \<and> ports_ok (task_outputs (run_task_ops ops t))"
  unfolding run_task_ops_def
proof (induction ops arbitrary: t)
  case Nil
  then show ?case by simp
next
  case (Cons a ops)
  from Cons.prems(3) have a: "avoids_internal_names a" and r: "list_all avoids_internal_names ops"
    by simp_all
  from apply_task_op_invariant[OF Cons.prems(1,2) a] Cons.IH[of "apply_task_op a t"] r
  show ?case by simp
qed

lemma boot_okD:
  assumes "boot_ok self"
  shows "portnames_of self = Inr (names_of self)"
    and "n \<in> set (names_of self) \<Longrightarrow> self n \<noteq> None \<Longrightarrow> n \<noteq> ''task'' \<Longrightarrow>
           \<exists>p. the_port self n = Some p \<and> port_name p = n"
    and "unshadowed self"
    and "n \<in> set (names_of self) \<Longrightarrow> ordinary n"
    and "distinct (names_of self)"
proof -
  from assms obtain ns where ns: "portnames_of self = Inr ns" and d: "distinct ns"
    and l: "list_all (\<lambda>n. ordinary n
                     \<and> (self n = None \<or> (n = ''task'' \<and> self n = Some Owner)
                          \<or> map_option port_name (the_port self n) = Some n)) ns"
    by (cases "portnames_of self") (simp_all add: boot_ok_def)
  have nm: "names_of self = ns" by (simp add: names_of_def ns)
  from assms show "unshadowed self" by (simp add: boot_ok_def)
  show "portnames_of self = Inr (names_of self)" by (simp only: nm ns)
  show "distinct (names_of self)" by (simp only: nm d)
  show "ordinary n" if "n \<in> set (names_of self)"
    using that l unfolding nm by (auto simp: list_all_iff)
  show "\<exists>p. the_port self n = Some p \<and> port_name p = n"
    if "n \<in> set (names_of self)" "self n \<noteq> None" "n \<noteq> ''task''"
    using that l unfolding nm by (auto simp: list_all_iff)
qed

lemma boot_step:
  assumes "boot_ok (task_inputs t)" and "k \<in> set (names_of (task_inputs t))"
    and "k \<noteq> ''_portnames''"
    and "Inputs_setattr k (PPort (Port k ty rq ds PNone True mx None None)) t = (Inr u, t')"
  shows "\<exists>p. port_name p = k \<and> t' = t\<lparr>task_inputs := (task_inputs t)(k \<mapsto> Val (PPort p))\<rparr>"
proof -
  let ?self = "task_inputs t"
  let ?v = "PPort (Port k ty rq ds PNone True mx None None)"
  note pn = boot_okD(1)[OF assms(1)]
  note rk = register_known[OF pn assms(2,3)]
  from boot_okD(3)[OF assms(1)] have un: "?self ''__getattribute__'' = None"
    by (simp add: unshadowed_def)
  have n: "port_name (Port k ty rq ds PNone True mx None None) = k" by simp
  show ?thesis
  proof (cases "k = ''task''")
    case True
    with assms(4) have "t' = t\<lparr>task_inputs := ?self(k \<mapsto> Val ?v)\<rparr>"
      by (simp add: Inputs_setattr_def Let_def)
    with n show ?thesis by blast
  next
    case task: False
    show ?thesis
    proof (cases "?self k = None")
      case False
      from boot_okD(2)[OF assms(1,2) False task] obtain p where p: "the_port ?self k = Some p"
        and np: "port_name p = k" by blast
      note a = the_port_attr[OF p] and pa = the_port_Some[OF p un]
      have "Inputs_setattr k ?v t
          = (Inr (), t\<lparr>task_inputs := ?self(k \<mapsto> Val (PPort (set_port_value ?v p)))\<rparr>)"
        using assms(2,3) task pn a pa by (simp add: Inputs_setattr_def Let_def)
      with assms(4) have "t' = t\<lparr>task_inputs := ?self(k \<mapsto> Val (PPort (set_port_value ?v p)))\<rparr>"
        by simp
      moreover have "port_name (set_port_value ?v p) = k" using np by (simp add: set_port_value_def)
      ultimately show ?thesis by blast
    next
      case True
      show ?thesis
      proof (cases "get_matching_multiplex_port ?self k")
        case (Inl e)
        with assms(2,3,4) task pn True show ?thesis by (simp add: Inputs_setattr_def Let_def)
      next
        case (Inr m)
        show ?thesis
        proof (cases m)
          case None
          with Inr assms(2,3,4) task pn True
          have "t' = t\<lparr>task_inputs := ?self(k \<mapsto> Val ?v)\<rparr>"
            by (simp add: Inputs_setattr_def Let_def)
          with n show ?thesis by blast
        next
          case (Some mp)
          with Inr assms(2,3,4) task pn True
          have "t' = t\<lparr>task_inputs := ?self(k \<mapsto> Val (PPort
                   (Port k (port_type mp) (port_required mp) (port_description mp) ?v
                      True False None None)),
                 ''_portnames'' \<mapsto> Names (set_add (names_of ?self) k))\<rparr>"
            by (simp add: Inputs_setattr_def Let_def)
          then have "t' = t\<lparr>task_inputs := ?self(k \<mapsto> Val (PPort
                   (Port k (port_type mp) (port_required mp) (port_description mp) ?v
                      True False None None)))\<rparr>"
            by (simp only: rk)
          moreover have "port_name (Port k (port_type mp) (port_required mp) (port_description mp) ?v
                      True False None None) = k" by simp
          ultimately show ?thesis by blast
        qed
      qed
    qed
  qed
qed

lemma boot_ok_update:
  assumes "boot_ok self" and "k \<in> set (names_of self)" and "k \<noteq> ''_portnames''"
    and "port_name p = k"
  shows "boot_ok (self(k \<mapsto> Val (PPort p)))"
    and "names_of (self(k \<mapsto> Val (PPort p))) = names_of self"
proof -
  from assms(3) have pn: "portnames_of (self(k \<mapsto> Val (PPort p))) = portnames_of self"
    by (simp add: portnames_of_def)
  show "names_of (self(k \<mapsto> Val (PPort p))) = names_of self" by (simp add: names_of_def pn)
  have "ordinary n \<and> ((self(k \<mapsto> Val (PPort p))) n = None
        \<or> (n = ''task'' \<and> (self(k \<mapsto> Val (PPort p))) n = Some Owner)
        \<or> map_option port_name (the_port (self(k \<mapsto> Val (PPort p))) n) = Some n)"
    if "n \<in> set (names_of self)" for n
  proof (cases "n = k")
    case True
    with assms(4) boot_okD(4)[OF assms(1) that] show ?thesis by (simp add: the_port_update)
  next
    case False
    from assms(1) that have "ordinary n \<and> (self n = None \<or> (n = ''task'' \<and> self n = Some Owner)
        \<or> map_option port_name (the_port self n) = Some n)"
      by (auto simp: boot_ok_def names_of_def list_all_iff split: sum.splits)
    with False show ?thesis by (simp add: the_port_update)
  qed
  moreover note unshadowed_update(1)[OF boot_okD(3)[OF assms(1)] boot_okD(4)[OF assms(1,2)]]
  ultimately show "boot_ok (self(k \<mapsto> Val (PPort p)))"
    using boot_okD(1,5)[OF assms(1)]
    unfolding boot_ok_def pn by (simp add: list_all_iff)
qed

lemma PortList_init_ports_boot:
  "boot_ok (task_inputs t) \<Longrightarrow>
   list_all (\<lambda>p. d_name p \<in> set (names_of (task_inputs t)) \<and> d_name p \<noteq> ''_portnames'') ps \<Longrightarrow>
   PortList_init_ports ps t = (Inr u, t') \<Longrightarrow>
   boot_ok (task_inputs t') \<and> names_of (task_inputs t') = names_of (task_inputs t)
     \<and> (\<forall>n. n \<in> d_name ` set ps \<or> map_option port_name (the_port (task_inputs t) n) = Some n
            \<longrightarrow> map_option port_name (the_port (task_inputs t') n) = Some n)"
proof (induction ps arbitrary: t)
  case Nil
  then show ?case by simp
next
  case (Cons a ps)
  let ?k = "d_name a"
  let ?v = "PPort (Port ?k (d_type a) (d_required a) (d_description a) PNone True
                (case d_multiplex a of Some b \<Rightarrow> b | None \<Rightarrow> False) None None)"
  from Cons.prems(2) have k: "?k \<in> set (names_of (task_inputs t))" "?k \<noteq> ''_portnames''"
    by simp_all
  from boot_okD(3)[OF Cons.prems(1)] have sa: "task_inputs t ''__setattr__'' = None"
    by (simp add: unshadowed_def)
  obtain r1 t1 where r: "Inputs_setattr ?k ?v t = (r1, t1)" by (cases "Inputs_setattr ?k ?v t")
  from Cons.prems(3) sa r have r1: "r1 = Inr ()" by (cases r1) simp_all
  from Cons.prems(3) sa r r1 have rest: "PortList_init_ports ps t1 = (Inr u, t')" by simp
  from boot_step[OF Cons.prems(1) k r[unfolded r1]]
  obtain p where p: "port_name p = ?k"
    and t1: "t1 = t\<lparr>task_inputs := (task_inputs t)(?k \<mapsto> Val (PPort p))\<rparr>"
    by blast
  note upd = boot_ok_update[OF Cons.prems(1) k p]
  have b1: "boot_ok (task_inputs t1)" using upd(1) by (simp add: t1)
  have n1: "names_of (task_inputs t1) = names_of (task_inputs t)" using upd(2) by (simp add: t1)
  from Cons.prems(2) have "list_all (\<lambda>p. d_name p \<in> set (names_of (task_inputs t1))
               \<and> d_name p \<noteq> ''_portnames'') ps"
    unfolding n1 by simp
  from Cons.IH[OF b1 this rest] have ih: "boot_ok (task_inputs t')"
    "names_of (task_inputs t') = names_of (task_inputs t1)"
    "\<And>n. n \<in> d_name ` set ps \<or> map_option port_name (the_port (task_inputs t1) n) = Some n
            \<Longrightarrow> map_option port_name (the_port (task_inputs t') n) = Some n"
    by blast+
  have "map_option port_name (the_port (task_inputs t') n) = Some n"
    if "n \<in> d_name ` set (a # ps) \<or> map_option port_name (the_port (task_inputs t) n) = Some n"
    for n
  proof (cases "n = ?k")
    case True
    with p have "map_option port_name (the_port (task_inputs t1) n) = Some n"
      by (simp add: t1 the_port_update)
    then show ?thesis by (rule ih(3)[OF disjI2])
  next
    case False
    with that have "n \<in> d_name ` set ps \<or> map_option port_name (the_port (task_inputs t1) n) = Some n"
      by (auto simp: t1 the_port_update)
    then show ?thesis by (rule ih(3))
  qed
  with ih(1,2) n1 show ?case by simp
qed

lemma Inputs_init_named_ok:
  assumes "list_all (\<lambda>p. ordinary (d_name p) \<and> d_name p \<noteq> ''_portnames'') ports"
    and "Inputs_init ports t = (Inr u, t')"
  shows "named_ok (task_inputs t')"
proof -
  let ?ns = "remdups (map d_name ports)"
  let ?self = "Map.empty(''task'' \<mapsto> Owner, ''_portnames'' \<mapsto> Names ?ns)"
  let ?t0 = "t\<lparr>task_inputs := ?self\<rparr>"
  have pn: "portnames_of ?self = Inr ?ns" by (simp add: portnames_of_def)
  have nm: "names_of (task_inputs ?t0) = ?ns" by (simp add: names_of_def pn)
  have "ordinary n \<and> (?self n = None \<or> (n = ''task'' \<and> ?self n = Some Owner)
           \<or> map_option port_name (the_port ?self n) = Some n)" if "n \<in> set ?ns" for n
    using that assms(1) by (auto simp: list_all_iff)
  moreover have "unshadowed ?self" by (simp add: unshadowed_def)
  ultimately have b: "boot_ok (task_inputs ?t0)"
    unfolding boot_ok_def by (simp add: pn list_all_iff del: fun_upd_apply)
  have l: "list_all (\<lambda>p. d_name p \<in> set (names_of (task_inputs ?t0))
               \<and> d_name p \<noteq> ''_portnames'') ports"
    unfolding nm using assms(1) by (auto simp: list_all_iff)
  from assms(2) have i: "PortList_init_ports ports ?t0 = (Inr u, t')"
    by (simp add: Inputs_init_def)
  from PortList_init_ports_boot[OF b l i] have
    t': "boot_ok (task_inputs t')" "names_of (task_inputs t') = ?ns"
      "\<And>n. n \<in> d_name ` set ports \<Longrightarrow> map_option port_name (the_port (task_inputs t') n) = Some n"
    unfolding nm by blast+
  have "ordinary n \<and> map_option port_name (the_port (task_inputs t') n) = Some n"
    if "n \<in> set (names_of (task_inputs t'))" for n
  proof -
    from that t'(2) have "n \<in> d_name ` set ports" by simp
    from t'(3)[OF this] boot_okD(4)[OF t'(1) that] show ?thesis by simp
  qed
  with boot_okD(1,3,5)[OF t'(1)] show "named_ok (task_inputs t')"
    unfolding named_ok_def by (simp add: list_all_iff)
qed

lemma Outputs_init_ports_failed:
  "task_name_of self = Inl e \<Longrightarrow> ps \<noteq> [] \<Longrightarrow> Outputs_init_ports ps self = Inl e"
  by (cases ps) simp_all

lemma Outputs_init_ports_result:
  "Outputs_init_ports ps self = Inr self' \<Longrightarrow>
   (if n \<in> d_name ` set ps
    then (\<exists>p. self' n = Some (Val (PPort p)) \<and> port_name p = n
            \<and> (\<forall>tn. task_name_of self = Inr tn \<longrightarrow>
                   port_value p = PStr (''source:'' @ tn @ '':'' @ n)))
    else self' n = self n)"
proof (induction ps arbitrary: self)
  case Nil
  then show ?case by simp
next
  case (Cons a ps)
  from Cons.prems obtain tn where tn: "task_name_of self = Inr tn"
    by (cases "task_name_of self") simp_all
  let ?p = "Port (d_name a) (d_type a) (d_required a) (d_description a)
              (PStr (''source:'' @ tn @ '':'' @ d_name a)) False
              (case d_multiplex a of Some b \<Rightarrow> b | None \<Rightarrow> False) None None"
  let ?self1 = "self(d_name a \<mapsto> Val (PPort ?p))"
  from Cons.prems tn have s': "Outputs_init_ports ps ?self1 = Inr self'"
    by (simp split: if_splits)
  note r = Cons.IH[OF s']
  show ?case
  proof (cases "n \<in> d_name ` set ps")
    case True
    then have ne: "ps \<noteq> []" by auto
    have "task_name_of ?self1 = Inr tn"
    proof (cases "task_name_of ?self1")
      case (Inl e)
      from Outputs_init_ports_failed[OF this ne] s' show ?thesis by simp
    next
      case (Inr tn')
      with tn show ?thesis by (auto simp: task_name_of_def split: if_splits)
    qed
    with r True tn show ?thesis by simp
  next
    case False
    with r have e: "self' n = ?self1 n" by simp
    show ?thesis
    proof (cases "n = d_name a")
      case True
      with e have "self' n = Some (Val (PPort ?p))" by simp
      with True tn show ?thesis by simp
    next
      case n: False
      with e False show ?thesis by simp
    qed
  qed
qed

lemma Outputs_init_named_ok:
  assumes "Outputs_init ports tn = Inr outs"
    and "list_all (\<lambda>p. ordinary (d_name p) \<and> d_name p \<noteq> ''_portnames'') ports"
  shows "named_ok outs"
    and "n \<in> d_name ` set ports \<Longrightarrow>
           n \<in> set (names_of outs)
           \<and> (\<exists>p. the_port outs n = Some p \<and> port_value p = PStr (''source:'' @ tn @ '':'' @ n))"
proof -
  let ?ns = "remdups (map d_name ports)"
  let ?self = "Map.empty(''_task_name'' \<mapsto> Val (PStr tn), ''_portnames'' \<mapsto> Names ?ns)"
  from assms(1) have o: "Outputs_init_ports ports ?self = Inr outs" by (simp add: Outputs_init_def)
  note r = Outputs_init_ports_result[OF o]
  have tn: "task_name_of ?self = Inr tn" by (simp add: task_name_of_def)
  from assms(2) have 3: "''_portnames'' \<notin> d_name ` set ports" by (auto simp: list_all_iff)
  from r[of "''_portnames''"] 3 have "outs ''_portnames'' = Some (Names ?ns)" by simp
  then have pn: "portnames_of outs = Inr ?ns" by (simp add: portnames_of_def)
  have nm: "names_of outs = ?ns" by (simp add: names_of_def pn)
  have m: "outs m = None" if "\<not> ordinary m" "m \<noteq> ''_task_name''" "m \<noteq> ''_portnames''" for m
  proof -
    from that(1) assms(2) have "m \<notin> d_name ` set ports" by (auto simp: list_all_iff)
    with r[of m] that(2,3) show ?thesis by simp
  qed
  have u: "unshadowed outs"
    unfolding unshadowed_def by (simp add: m ordinary_def)
  have "ordinary n \<and> map_option port_name (the_port outs n) = Some n" if "n \<in> set ?ns" for n
  proof -
    from that have d: "n \<in> d_name ` set ports" by simp
    with r[of n] obtain p where "outs n = Some (Val (PPort p))" "port_name p = n"
      by auto
    moreover from d assms(2) have "ordinary n" by (auto simp: list_all_iff)
    ultimately show ?thesis by (simp add: the_port_def)
  qed
  with u show "named_ok outs" unfolding named_ok_def pn by (simp add: list_all_iff)
  show "n \<in> set (names_of outs)
      \<and> (\<exists>p. the_port outs n = Some p \<and> port_value p = PStr (''source:'' @ tn @ '':'' @ n))"
    if "n \<in> d_name ` set ports"
  proof -
    from r[of n] that tn obtain p where "outs n = Some (Val (PPort p))"
      "port_value p = PStr (''source:'' @ tn @ '':'' @ n)"
      by auto
    with that show ?thesis by (simp add: nm the_port_def)
  qed
qed

lemma Task_init_named_ok:
  assumes "Task_init ty uuid d kwargs = Inr t"
    and "list_all (\<lambda>p. ordinary (d_name p) \<and> d_name p \<noteq> ''_portnames'') (inputPortDescriptors d)"
    and "list_all (\<lambda>p. ordinary (d_name p) \<and> d_name p \<noteq> ''_portnames'') (outputPortDescriptors d)"
    and "list_all (\<lambda>kv. ordinary (fst kv) \<and> fst kv \<notin> set [''task'', ''_portnames'']) kwargs"
  shows "named_ok (task_inputs t)" and "named_ok (task_outputs t)"
proof -
  from assms(1) obtain dmn t1 outs where
    r1: "Inputs_init (inputPortDescriptors d)
       \<lparr>task_name = py_replace '':'' ''_'' (ty @ ''_'' @ take 8 uuid), task_type = ty,
        task_definition = d, task_domain = dmn,
        task_timeout = (case dict_get (properties d) ''timeout'' of Some v \<Rightarrow> v | None \<Rightarrow> PNone),
        task_inputs = Map.empty, task_outputs = Map.empty,
        task_batch_values = PNone, task_impersonation_allowed = PNone\<rparr> = (Inr (), t1)"
    and r2: "Task_set kwargs (t1\<lparr>task_outputs := outs, task_batch_values := PNone,
                         task_impersonation_allowed := PNone\<rparr>) = (Inr (), t)"
    by (rule Task_init_Inr)
  note i1 = Inputs_init_named_ok[OF assms(2) r1]
  define t1' where "t1' = t1\<lparr>task_outputs := outs, task_batch_values := PNone,
                                task_impersonation_allowed := PNone\<rparr>"
  have i: "named_ok (task_inputs t1')" using i1 by (simp add: t1'_def)
  from Task_set_named_ok[OF i assms(4)] r2 show "named_ok (task_inputs t)"
    by (simp add: t1'_def)
  from Outputs_init_named_ok(1)[OF Task_init_fields(4)[OF assms(1)] assms(3)]
  show "named_ok (task_outputs t)" .
qed




section \<open>Properties\<close>

subsection \<open>A workflow without tasks\<close>

text \<open>
  C9. For every workflow whose task list is empty, \<open>generate_workflow_description\<close>
  raises the WorkflowError "Workflow contains no tasks, and cannot be executed." at once:
  the workflow is left as it was, so no document is stored in \<open>definition\<close>. \<open>execute\<close>
  therefore raises the same error, makes no request to the service and sets no id.
\<close>

theorem generate_without_tasks_fails:
  "generate_workflow_description (w\<lparr>wf_tasks := []\<rparr>) =
     (Inl (WorkflowError ''Workflow contains no tasks, and cannot be executed.''),
      w\<lparr>wf_tasks := []\<rparr>)
   \<and> execute svc (w\<lparr>wf_tasks := []\<rparr>) =
     (Inl (WorkflowError ''Workflow contains no tasks, and cannot be executed.''),
      w\<lparr>wf_tasks := []\<rparr>)"
  by (simp add: generate_workflow_description_def execute_def)

subsection \<open>A workflow that was never executed\<close>

text \<open>
  C8. For every workflow whose id is None, whatever the service would answer:
  \<open>status\<close>, \<open>cancel\<close>, \<open>stdout\<close>, \<open>stderr\<close>, \<open>task_ids\<close> and \<open>events\<close> each raise a
  WorkflowError "Workflow is not running. ...", and each of the ten lifecycle predicates
  returns False. In every case the workflow is returned unchanged, in particular its list
  of requests: the service is not contacted.
\<close>

theorem unset_id_not_running:
  "status svc (w\<lparr>wf_id := PNone\<rparr>) =
     (Inl (WorkflowError ''Workflow is not running.  Cannot check status.''), w\<lparr>wf_id := PNone\<rparr>)
   \<and> cancel svc (w\<lparr>wf_id := PNone\<rparr>) =
     (Inl (WorkflowError ''Workflow is not running.  Cannot cancel.''), w\<lparr>wf_id := PNone\<rparr>)
   \<and> stdout svc (w\<lparr>wf_id := PNone\<rparr>) =
     (Inl (WorkflowError ''Workflow is not running.  Cannot get stdout.''), w\<lparr>wf_id := PNone\<rparr>)
   \<and> stderr svc (w\<lparr>wf_id := PNone\<rparr>) =
     (Inl (WorkflowError ''Workflow is not running.  Cannot get stderr.''), w\<lparr>wf_id := PNone\<rparr>)
   \<and> task_ids svc (w\<lparr>wf_id := PNone\<rparr>) =
     (Inl (WorkflowError ''Workflow is not running.  Cannot get task IDs.''), w\<lparr>wf_id := PNone\<rparr>)
   \<and> events svc (w\<lparr>wf_id := PNone\<rparr>) =
     (Inl (WorkflowError ''Workflow is not running.  Cannot check status.''), w\<lparr>wf_id := PNone\<rparr>)
   \<and> complete svc (w\<lparr>wf_id := PNone\<rparr>) = (Inr (PBool False), w\<lparr>wf_id := PNone\<rparr>)
   \<and> succeeded svc (w\<lparr>wf_id := PNone\<rparr>) = (Inr (PBool False), w\<lparr>wf_id := PNone\<rparr>)
   \<and> failed svc (w\<lparr>wf_id := PNone\<rparr>) = (Inr (PBool False), w\<lparr>wf_id := PNone\<rparr>)
   \<and> canceled svc (w\<lparr>wf_id := PNone\<rparr>) = (Inr (PBool False), w\<lparr>wf_id := PNone\<rparr>)
   \<and> running svc (w\<lparr>wf_id := PNone\<rparr>) = (Inr (PBool False), w\<lparr>wf_id := PNone\<rparr>)
   \<and> timedout svc (w\<lparr>wf_id := PNone\<rparr>) = (Inr (PBool False), w\<lparr>wf_id := PNone\<rparr>)
   \<and> scheduling svc (w\<lparr>wf_id := PNone\<rparr>) = (Inr (PBool False), w\<lparr>wf_id := PNone\<rparr>)
   \<and> rescheduling svc (w\<lparr>wf_id := PNone\<rparr>) = (Inr (PBool False), w\<lparr>wf_id := PNone\<rparr>)
   \<and> waiting svc (w\<lparr>wf_id := PNone\<rparr>) = (Inr (PBool False), w\<lparr>wf_id := PNone\<rparr>)
   \<and> submitting svc (w\<lparr>wf_id := PNone\<rparr>) = (Inr (PBool False), w\<lparr>wf_id := PNone\<rparr>)"
  by (simp add: status_def cancel_def stdout_def stderr_def workflow_logs_def task_ids_def
      events_def complete_def succeeded_def failed_def canceled_def running_def timedout_def
      scheduling_def rescheduling_def waiting_def submitting_def single_workflow_predicate_def)

subsection \<open>The timeout of a task\<close>

text \<open>
  C5 (as amended). For every task, assigning the timeout 0, 172800 or a negative integer
  raises a ValueError and leaves the task, and so its stored timeout, unchanged; assigning
  172799 succeeds and stores it. The keyword arguments of the constructor are input port
  values: whenever \<open>Task(type, **kwargs)\<close> succeeds, the timeout of the new task is the
  one of the registry definition (None when the definition has none), whatever
  \<open>kwargs\<close> holds.
\<close>

theorem timeout_setter_range:
  "(v = 0 \<or> v = 172800 \<or> v < 0 \<longrightarrow>
      timeout_setter v t =
        (Inl (ValueError (''timeout of '' @ str_int v @ '' is not a valid number'')), t))
   \<and> timeout_setter 172799 t = (Inr (), t\<lparr>task_timeout := PInt 172799\<rparr>)
   \<and> (Task_init ty uuid d kwargs = Inr t' \<longrightarrow>
        timeout t' = (case dict_get (properties d) ''timeout'' of Some x \<Rightarrow> x | None \<Rightarrow> PNone))"
  using Task_init_fields(1)[of ty uuid d kwargs t']
  by (auto simp: timeout_setter_def timeout_def)

theorem timeout_setter_range_witness:
  "timeout_setter 0 example_task =
     (Inl (ValueError ''timeout of 0 is not a valid number''), example_task)
   \<and> timeout_setter 172800 example_task =
     (Inl (ValueError ''timeout of 172800 is not a valid number''), example_task)
   \<and> timeout_setter (- 5) example_task =
     (Inl (ValueError ''timeout of -5 is not a valid number''), example_task)
   \<and> timeout_setter 172799 example_task = (Inr (), example_task\<lparr>task_timeout := PInt 172799\<rparr>)
   \<and> map_sum id timeout
        (Task_init ''x'' ''0f1e2d3c-0000-4000-8000-000000000000'' timeout_port_definition
           [(''timeout'', PInt 100)]) = Inr (PInt 7200)"
proof -
  obtain t' where t': "Task_init ''x'' ''0f1e2d3c-0000-4000-8000-000000000000''
      timeout_port_definition [(''timeout'', PInt 100)] = Inr t'"
    by (simp add: eval_defs)
  have p: "properties timeout_port_definition = [(''timeout'', PInt 7200)]"
    by (simp add: timeout_port_definition_def)
  show ?thesis
    using timeout_setter_range[of 0 example_task "''x''" "''0f1e2d3c-0000-4000-8000-000000000000''"
        timeout_port_definition "[(''timeout'', PInt 100)]" t']
      timeout_setter_range[of 172800 example_task "''x''" "''0f1e2d3c-0000-4000-8000-000000000000''"
        timeout_port_definition "[(''timeout'', PInt 100)]" t']
      timeout_setter_range[of "- 5" example_task "''x''" "''0f1e2d3c-0000-4000-8000-000000000000''"
        timeout_port_definition "[(''timeout'', PInt 100)]" t']
      t' p
    by (simp add: str_int_examples)
qed

text \<open>
  C5 as stated fails: \<open>Task("x", timeout=100)\<close> raises "Task has no input port named
  timeout." when the task type declares no such input port, and when it declares one the
  value 100 goes to that port while the timeout stays the registry's 7200.
\<close>

theorem constructor_timeout_counterexample:
  "Task_init ''x'' ''0f1e2d3c-0000-4000-8000-000000000000'' no_ports_definition
      [(''timeout'', PInt 100)]
     = Inl (AttributeError ''Task has no input port named timeout.'')
   \<and> map_sum id timeout
        (Task_init ''x'' ''0f1e2d3c-0000-4000-8000-000000000000'' timeout_port_definition
           [(''timeout'', PInt 100)]) = Inr (PInt 7200)
   \<and> PInt 7200 \<noteq> PInt 100"
  by (simp add: eval_defs)

subsection \<open>Impersonation\<close>

text \<open>
  C10. A task that the constructor returns has \<open>impersonation_allowed\<close> None. Assigning
  any value other than True leaves the task unchanged; assigning True stores True; once it
  is True it is True after every further sequence of operations. For a task that starts
  with None, the serialised record after a sequence of operations has the field
  \<open>impersonation_allowed\<close> (with value True) if and only if True was assigned in that
  sequence.
\<close>

theorem impersonation_allowed_sticky:
  "(Task_init ty uuid d kwargs = Inr t0 \<longrightarrow> impersonation_allowed t0 = PNone)
   \<and> (v \<noteq> PBool True \<longrightarrow> impersonation_allowed_setter v t = t)
   \<and> impersonation_allowed (impersonation_allowed_setter (PBool True) t) = PBool True
   \<and> (impersonation_allowed t = PBool True \<longrightarrow>
        impersonation_allowed (run_task_ops ops t) = PBool True)
   \<and> (impersonation_allowed t = PNone
        \<and> generate_task_workflow_json excl (run_task_ops ops t) = (Inr (PDict r), t') \<longrightarrow>
        dict_get r ''impersonation_allowed'' =
          (if Assign_impersonation_allowed (PBool True) \<in> set ops then Some (PBool True) else None))"
  using Task_init_fields(2)[of ty uuid d kwargs t0]
    generate_task_workflow_json_impersonation[of excl "run_task_ops ops t" r t']
  by (auto simp: impersonation_allowed_def impersonation_allowed_setter_def run_task_ops_impersonation)

theorem impersonation_allowed_sticky_witness:
  "map_sum id impersonation_allowed
     (Task_init ''x'' ''0f1e2d3c-0000-4000-8000-000000000000'' timeout_port_definition []) = Inr PNone
   \<and> impersonation_allowed_setter (PBool False) example_task = example_task
   \<and> impersonation_allowed
        (run_task_ops [Assign_impersonation_allowed (PBool False), Assign_input ''timeout'' (PInt 5)]
           (impersonation_allowed_setter (PBool True) example_task)) = PBool True
   \<and> (case fst (generate_task_workflow_json []
          (run_task_ops [Assign_impersonation_allowed (PBool False), Assign_input ''timeout'' (PInt 5),
             Assign_impersonation_allowed (PBool True), Assign_impersonation_allowed PNone]
             example_task)) of
         Inr (PDict r) \<Rightarrow> dict_get r ''impersonation_allowed'' = Some (PBool True)
       | _ \<Rightarrow> False)
   \<and> (case fst (generate_task_workflow_json []
          (run_task_ops [Assign_impersonation_allowed (PBool False), Assign_input ''timeout'' (PInt 5)]
             example_task)) of
         Inr (PDict r) \<Rightarrow> dict_get r ''impersonation_allowed'' = None
       | _ \<Rightarrow> False)"
proof -
  let ?u = "''0f1e2d3c-0000-4000-8000-000000000000''"
  let ?ops1 = "[Assign_impersonation_allowed (PBool False), Assign_input ''timeout'' (PInt 5),
             Assign_impersonation_allowed (PBool True), Assign_impersonation_allowed PNone]"
  let ?ops2 = "[Assign_impersonation_allowed (PBool False), Assign_input ''timeout'' (PInt 5)]"
  obtain t0 where t0: "Task_init ''x'' ?u timeout_port_definition [] = Inr t0"
    by (simp add: eval_defs)
  obtain r1 t1 where g1:
    "generate_task_workflow_json [] (run_task_ops ?ops1 example_task) = (Inr (PDict r1), t1)"
    by (simp add: eval_defs eval_json_defs)
  obtain r2 t2 where g2:
    "generate_task_workflow_json [] (run_task_ops ?ops2 example_task) = (Inr (PDict r2), t2)"
    by (simp add: eval_defs eval_json_defs)
  have e: "impersonation_allowed example_task = PNone"
    by (simp add: impersonation_allowed_def example_task_def)
  have s: "impersonation_allowed (impersonation_allowed_setter (PBool True) example_task) = PBool True"
    by (simp add: impersonation_allowed_def impersonation_allowed_setter_def)
  show ?thesis
    using impersonation_allowed_sticky[of "''x''" ?u timeout_port_definition "[]" t0
        "PBool False" example_task ?ops1 "[]" r1 t1]
      impersonation_allowed_sticky[of "''x''" ?u timeout_port_definition "[]" t0
        "PBool False" example_task ?ops2 "[]" r2 t2]
      impersonation_allowed_sticky[of "''x''" ?u timeout_port_definition "[]" t0
        "PBool False" "impersonation_allowed_setter (PBool True) example_task" ?ops2 "[]" r2 t2]
      t0 g1 g2 e s
    by simp
qed

subsection \<open>Pruning of multiplex output ports\<close>




subsection \<open>The serialised inputs list\<close>

text \<open>
  C2, at the input on which the code departs from it. The input port \<open>data\<close> holds the
  string \<open>source:AOP_Strip_Processor_0f1e2d3c:source:out\<close>, which begins with
  \<open>source:\<close>. The claim asks for the entry \<open>{name: data, source: <value without the
  prefix>}\<close>, that is \<open>AOP_Strip_Processor_0f1e2d3c:source:out\<close>; but
  \<open>str.replace('source:', '')\<close> removes every occurrence, and the serialised entry is
  \<open>AOP_Strip_Processor_0f1e2d3c:out\<close>. The rest of the rule is as claimed (lemmas
  \<open>inputs_json_ports\<close> and \<open>input_entry_rule\<close>).
\<close>

theorem source_replace_all_occurrences:
  "map_sum id (\<lambda>r. subscript r ''inputs'')
     (fst (generate_task_workflow_json []
        (snd (Inputs_setattr ''data'' (PStr ''source:AOP_Strip_Processor_0f1e2d3c:source:out'') consumer_task))))
   = Inr (Inr (PList [PDict [(''name'', PStr ''data''), (''source'', PStr ''AOP_Strip_Processor_0f1e2d3c:out'')]]))
   \<and> drop (length ''source:'') ''source:AOP_Strip_Processor_0f1e2d3c:source:out'' = ''AOP_Strip_Processor_0f1e2d3c:source:out''"
  by (simp add: eval_defs eval_json_defs consumer_task_def subscript_def)

subsection \<open>Assigning a list to an input port\<close>

text \<open>
  C3 (as amended). In an input collection none of whose methods is shadowed, whose
  attribute \<open>_portnames\<close> holds the set of names and whose attribute \<open>task\<close> holds the
  owning task, on a task whose \<open>batch_values\<close> is None or a list: assigning a list
  \<open>xs\<close> (a value that passes \<open>isinstance(v, list)\<close>) to a registered ordinary name
  \<open>k\<close> that holds a Port succeeds, does not store the list on the port, sets the port's
  value to the string \<open>{{batch_input_k}}\<close>, and appends the record
  \<open>{name: batch_input_k, values: xs}\<close> to \<open>batch_values\<close>, which starts as the empty
  list when it was None. Nothing else changes.
\<close>

theorem list_assignment_batches:
  assumes "unshadowed (task_inputs t)"
    and "portnames_of (task_inputs t) = Inr ns" and "k \<in> set ns" and "ordinary k"
    and "the_port (task_inputs t) k = Some p"
    and "task_inputs t ''task'' = Some Owner"
    and "task_batch_values t = PNone \<or> (\<exists>bs. task_batch_values t = PList bs)"
  shows "Inputs_setattr k (PList xs) t =
     (Inr (),
      t\<lparr>task_inputs := (task_inputs t)(k \<mapsto>
           Val (PPort (set_port_value (PStr (''{{batch_input_'' @ k @ ''}}'')) p))),
        task_batch_values := PList
          ((case task_batch_values t of PList bs \<Rightarrow> bs | _ \<Rightarrow> [])
           @ [PDict [(''name'', PStr (''batch_input_'' @ k)), (''values'', PList xs)]])\<rparr>)"
proof -
  from assms(5) have a: "task_inputs t k = Some (Val (PPort p))" by (rule the_port_attr)
  from assms(2) have n: "task_inputs t ''_portnames'' = Some (Names ns)" by (rule portnames_of_attr)
  from a assms(6) have k1: "k \<noteq> ''task''" by auto
  from a n have k2: "k \<noteq> ''_portnames''" by auto
  from assms(1) have un: "task_inputs t ''__getattribute__'' = None" by (simp add: unshadowed_def)
  from assms(5) un have pa: "port_at (task_inputs t) k = Inr p" by (rule the_port_Some)
  define t1 where "t1 = t\<lparr>task_inputs := (task_inputs t)(k \<mapsto>
           Val (PPort (set_port_value (PStr (''{{batch_input_'' @ k @ ''}}'')) p)))\<rparr>"
  have s: "Inputs_setattr k (PList xs) t = append_batch_values k xs t1"
    using assms(2,3) a k1 k2 pa by (simp add: Inputs_setattr_def Let_def t1_def)
  have o: "task_inputs t1 ''task'' = Some Owner" using assms(6) k1 by (simp add: t1_def)
  have b: "task_batch_values t1 = task_batch_values t" by (simp add: t1_def)
  show ?thesis
    unfolding s using append_batch_values_ok[of t1 k xs] o b assms(7)
    by (simp add: t1_def)
qed

theorem list_assignment_batches_witness:
  "Inputs_setattr ''data'' (PList [PStr ''a'', PStr ''b'']) consumer_task =
     (Inr (),
      consumer_task\<lparr>task_inputs := (task_inputs consumer_task)(''data'' \<mapsto>
           Val (PPort (Port ''data'' ''directory'' (Some True) None (PStr ''{{batch_input_data}}'')
             True False None None))),
        task_batch_values := PList
          [PDict [(''name'', PStr ''batch_input_data''), (''values'', PList [PStr ''a'', PStr ''b''])]]\<rparr>)"
proof -
  have 0: "unshadowed (task_inputs consumer_task)"
    by (simp add: consumer_task_def unshadowed_def)
  have 1: "portnames_of (task_inputs consumer_task) = Inr [''data'', ''flag'', ''extra'']"
    by (simp add: consumer_task_def portnames_of_def)
  have 2: "the_port (task_inputs consumer_task) ''data''
      = Some (Port ''data'' ''directory'' (Some True) None PNone True False None None)"
    by (simp add: consumer_task_def the_port_def)
  have 3: "task_inputs consumer_task ''task'' = Some Owner"
    by (simp add: consumer_task_def)
  have 4: "task_batch_values consumer_task = PNone \<or> (\<exists>bs. task_batch_values consumer_task = PList bs)"
    by (simp add: consumer_task_def)
  have 5: "task_batch_values consumer_task = PNone" by (simp add: consumer_task_def)
  have 6: "ordinary ''data''" by (simp add: ordinary_def)
  show ?thesis
    using list_assignment_batches[OF 0 1 _ 6 2 3 4, of "[PStr ''a'', PStr ''b'']"] 5
    by (simp add: set_port_value_def)
qed

text \<open>
  C3 as stated fails three times. The test is \<open>isinstance(v, list)\<close>: a tuple, which is
  a sequence and neither a scalar nor a string, is stored on the port as it is, with no
  placeholder and no batch record. For a declared input port called \<open>task\<close>, which the
  constructor registers, assigning a list takes the first branch of \<open>__setattr__\<close>,
  which stores the list in place of the Port; \<open>batch_values\<close> stays None. And in a
  task with a multiplex input port \<open>__get\<close>, the write \<open>inputs.__getattribute__ = 1\<close>
  creates a port that shadows the method \<open>__setattr__\<close> calls by name: assigning a list to
  the declared port \<open>data\<close> then raises TypeError and appends nothing.
\<close>

theorem sequence_assignment_counterexample:
  "Inputs_setattr ''data'' (PTuple [PStr ''a'', PStr ''b'']) consumer_task =
     (Inr (),
      consumer_task\<lparr>task_inputs := (task_inputs consumer_task)(''data'' \<mapsto>
           Val (PPort (Port ''data'' ''directory'' (Some True) None (PTuple [PStr ''a'', PStr ''b''])
             True False None None)))\<rparr>)
   \<and> task_batch_values consumer_task = PNone
   \<and> map_sum id
       (\<lambda>t. (names_of (task_inputs t), the_port (task_inputs t) ''task'',
             fst (Inputs_setattr ''task'' (PList [PInt 1, PInt 2]) t),
             task_inputs (snd (Inputs_setattr ''task'' (PList [PInt 1, PInt 2]) t)) ''task'',
             task_batch_values (snd (Inputs_setattr ''task'' (PList [PInt 1, PInt 2]) t))))
       (Task_init ''x'' ''0f1e2d3c-0000-4000-8000-000000000000'' task_port_definition [])
     = Inr ([''task''], Some (Port ''task'' ''string'' None None PNone True False None None),
            Inr (), Some (Val (PList [PInt 1, PInt 2])), PNone)
   \<and> map_sum id
       (\<lambda>t. (fst (Inputs_setattr ''__getattribute__'' (PInt 1) t),
             names_of (task_inputs (snd (Inputs_setattr ''__getattribute__'' (PInt 1) t))),
             fst (Inputs_setattr ''data'' (PList [PInt 1, PInt 2])
                    (snd (Inputs_setattr ''__getattribute__'' (PInt 1) t))),
             task_batch_values (snd (Inputs_setattr ''data'' (PList [PInt 1, PInt 2])
                    (snd (Inputs_setattr ''__getattribute__'' (PInt 1) t))))))
       (Task_init ''x'' ''0f1e2d3c-0000-4000-8000-000000000000'' shadowing_definition [])
     = Inr (Inr (), [''data'', ''self'', ''__get'', ''get_'', ''__getattribute__''],
            Inl (TypeError ''object is not callable''), PNone)"
  by (simp add: eval_defs example_defs shadowing_definition_def names_of_def the_port_def)

subsection \<open>Writing an unknown input port\<close>

text \<open>
  C7 (as amended). In a well-formed input collection (no method of the collection is
  shadowed, and every registered name is an ordinary name that holds a Port), a write to a
  name other than \<open>task\<close> and \<open>_portnames\<close> that is not registered and that no
  registered multiplex port is a prefix of raises AttributeError with the message "Task
  has no input port named <name>." and changes nothing. The message names the port only.
\<close>

theorem unknown_input_port:
  assumes "k \<noteq> ''task''" and "k \<noteq> ''_portnames''"
    and "ports_ok (task_inputs t)"
    and "k \<notin> set (names_of (task_inputs t))"
    and "\<forall>n \<in> set (names_of (task_inputs t)).
           prefix n k \<longrightarrow> \<not> is_multiplex (the (the_port (task_inputs t) n))"
  shows "Inputs_setattr k v t =
     (Inl (AttributeError (''Task has no input port named '' @ k @ ''.'')), t)"
proof -
  define ns where "ns = names_of (task_inputs t)"
  note pn = ports_okD(1)[OF assms(3), folded ns_def]
  note un = ports_okD(3)[OF assms(3)]
  have "set ms \<subseteq> set ns \<Longrightarrow> matching_multiplex_ports (task_inputs t) k ms = Inr []" for ms
  proof (induction ms)
    case Nil
    show ?case by simp
  next
    case (Cons m ms)
    from Cons.prems have m: "m \<in> set ns" and ms: "set ms \<subseteq> set ns" by auto
    from ports_okD(2)[OF assms(3), of m] m obtain p where p: "the_port (task_inputs t) m = Some p"
      by (auto simp: ns_def)
    from assms(5) m p have "prefix m k \<Longrightarrow> \<not> is_multiplex p" by (auto simp: ns_def)
    with Cons.IH[OF ms] the_port_Some[OF p un] show ?case by simp
  qed
  then have "get_matching_multiplex_port (task_inputs t) k = Inr None"
    by (simp add: get_matching_multiplex_port_def pn ports_okD(5)[OF assms(3)])
  with assms(1,2,4) pn show ?thesis
    by (simp add: Inputs_setattr_def ns_def[symmetric])
qed

theorem unknown_input_port_witness:
  "Inputs_setattr ''bogus'' (PInt 1) consumer_task =
     (Inl (AttributeError ''Task has no input port named bogus.''), consumer_task)"
proof -
  have 1: "ports_ok (task_inputs consumer_task)"
    by (simp add: consumer_task_def ok_defs)
  have 2: "names_of (task_inputs consumer_task) = [''data'', ''flag'', ''extra'']"
    by (simp add: consumer_task_def portnames_of_def names_of_def)
  have 3: "\<forall>n \<in> set (names_of (task_inputs consumer_task)).
           prefix n ''bogus'' \<longrightarrow> \<not> is_multiplex (the (the_port (task_inputs consumer_task) n))"
    unfolding 2 by simp
  show ?thesis
    using unknown_input_port[OF _ _ 1 _ 3, of "PInt 1"] 2 by simp
qed

text \<open>
  C7 as stated fails three times. A write to the name \<open>task\<close>, neither registered nor
  prefixed by a multiplex port, succeeds. The error for an unknown name does not name the
  type of the task: for the task of type \<open>StageDataToS3\<close> the message is "Task has no
  input port named bogus.". And in a task with a multiplex input port \<open>get_\<close>, the write
  \<open>inputs.get_matching_multiplex_port = 1\<close> creates a port that shadows the method
  \<open>__setattr__\<close> calls by name: a write to the unknown name \<open>bogus\<close> then raises
  TypeError.
\<close>

theorem write_to_task_counterexample:
  "''task'' \<notin> set (names_of (task_inputs consumer_task))
   \<and> get_matching_multiplex_port (task_inputs consumer_task) ''task'' = Inr None
   \<and> fst (Inputs_setattr ''task'' (PInt 1) consumer_task) = Inr ()
   \<and> task_type consumer_task = ''StageDataToS3''
   \<and> Inputs_setattr ''bogus'' (PInt 1) consumer_task =
       (Inl (AttributeError ''Task has no input port named bogus.''), consumer_task)
   \<and> \<not> sublist ''StageDataToS3'' ''Task has no input port named bogus.''
   \<and> map_sum id
       (\<lambda>t. (fst (Inputs_setattr ''get_matching_multiplex_port'' (PInt 1) t),
             names_of (task_inputs (snd (Inputs_setattr ''get_matching_multiplex_port'' (PInt 1) t))),
             fst (Inputs_setattr ''bogus'' (PInt 1)
                    (snd (Inputs_setattr ''get_matching_multiplex_port'' (PInt 1) t)))))
       (Task_init ''x'' ''0f1e2d3c-0000-4000-8000-000000000000'' shadowing_definition [])
     = Inr (Inr (), [''data'', ''self'', ''__get'', ''get_'', ''get_matching_multiplex_port''],
            Inl (TypeError ''object is not callable''))"
  by (simp add: eval_defs example_defs shadowing_definition_def names_of_def sublist_code)

subsection \<open>Wiring an output to an input\<close>




subsection \<open>Registered names and their ports\<close>

text \<open>
  C6 (as amended). In a port collection none of whose methods is shadowed, every
  registered name is an ordinary name that holds exactly one Port, and in an input
  collection the \<open>name\<close> of that Port is the registered name:
  \<^item> a task that the constructor returns, for a definition whose input and output ports
    have ordinary names other than \<open>_portnames\<close> and for keyword arguments with
    ordinary names other than \<open>task\<close> and \<open>_portnames\<close>, has both collections in that
    state (an input port may be called \<open>task\<close>);
  \<^item> a write to an ordinary input name other than \<open>task\<close> and \<open>_portnames\<close> keeps the
    input collection in that state, whether it assigns a declared port, creates a port
    from a multiplex template or raises;
  \<^item> a read of an output name keeps the output collection well-formed, keeps the names
    registered before and does not touch their Ports, whether it returns a registered
    port, creates one from a multiplex template or raises;
  \<^item> so both hold after every sequence of operations on a task that writes ordinary
    input names only, none of them \<open>task\<close> or \<open>_portnames\<close>.
  Nothing is said here about the \<open>name\<close> of an output Port created on read.
\<close>

theorem registered_names_hold_ports:
  "(Task_init ty uuid d kwargs = Inr t0
      \<and> list_all (\<lambda>p. ordinary (d_name p) \<and> d_name p \<noteq> ''_portnames'') (inputPortDescriptors d)
      \<and> list_all (\<lambda>p. ordinary (d_name p) \<and> d_name p \<noteq> ''_portnames'') (outputPortDescriptors d)
      \<and> list_all (\<lambda>kv. ordinary (fst kv) \<and> fst kv \<notin> set [''task'', ''_portnames'']) kwargs
    \<longrightarrow> named_ok (task_inputs t0) \<and> named_ok (task_outputs t0))
   \<and> (named_ok (task_inputs t) \<and> ordinary k \<and> k \<noteq> ''task'' \<and> k \<noteq> ''_portnames''
    \<longrightarrow> named_ok (task_inputs (snd (Inputs_setattr k v t))))
   \<and> (ports_ok outs
    \<longrightarrow> ports_ok (snd (Outputs_getattribute k outs))
        \<and> (\<forall>n \<in> set (names_of outs).
              n \<in> set (names_of (snd (Outputs_getattribute k outs)))
              \<and> the_port (snd (Outputs_getattribute k outs)) n = the_port outs n))
   \<and> (named_ok (task_inputs t) \<and> ports_ok (task_outputs t) \<and> list_all avoids_internal_names ops
    \<longrightarrow> named_ok (task_inputs (run_task_ops ops t))
        \<and> ports_ok (task_outputs (run_task_ops ops t)))"
  using Task_init_named_ok[of ty uuid d kwargs t0] Inputs_setattr_named_ok[of t k v]
    Outputs_getattribute_ports_ok[of outs] run_task_ops_invariant[of t ops]
  by blast

theorem registered_names_hold_ports_witness:
  "named_ok (task_inputs consumer_task) \<and> named_ok (task_outputs consumer_task)
   \<and> map_sum id (\<lambda>t. (names_of (task_inputs t), named_ok (task_inputs t)))
        (Task_init ''x'' ''0f1e2d3c-0000-4000-8000-000000000000'' task_port_definition [])
       = Inr ([''task''], True)
   \<and> names_of (task_inputs (snd (Inputs_setattr ''extra_1'' (PInt 3) consumer_task)))
       = [''data'', ''flag'', ''extra'', ''extra_1'']
   \<and> named_ok (task_inputs (snd (Inputs_setattr ''extra_1'' (PInt 3) consumer_task)))
   \<and> names_of (snd (Outputs_getattribute ''tiles_1'' (task_outputs producer_task)))
       = [''out'', ''tiles'', ''tiles_1'']
   \<and> ports_ok (snd (Outputs_getattribute ''tiles_1'' (task_outputs producer_task)))
   \<and> the_port (snd (Outputs_getattribute ''tiles_1'' (task_outputs producer_task))) ''tiles''
       = the_port (task_outputs producer_task) ''tiles''
   \<and> named_ok (task_inputs (run_task_ops
         [Assign_input ''extra_1'' (PInt 3), Call_set [(''data'', PStr ''x'')],
          Call_get_output ''nothing''] consumer_task))
   \<and> ports_ok (task_outputs (run_task_ops
         [Assign_input ''extra_1'' (PInt 3), Call_set [(''data'', PStr ''x'')],
          Call_get_output ''nothing''] consumer_task))"
proof -
  let ?ops = "[Assign_input ''extra_1'' (PInt 3), Call_set [(''data'', PStr ''x'')],
          Call_get_output ''nothing'']"
  let ?u = "''0f1e2d3c-0000-4000-8000-000000000000''"
  have d: "list_all (\<lambda>p. ordinary (d_name p) \<and> d_name p \<noteq> ''_portnames'')
             (inputPortDescriptors consumer_definition)"
    "list_all (\<lambda>p. ordinary (d_name p) \<and> d_name p \<noteq> ''_portnames'')
             (outputPortDescriptors consumer_definition)"
    "list_all (\<lambda>kv. ordinary (fst kv) \<and> fst kv \<notin> set [''task'', ''_portnames''])
             ([] :: (string \<times> pyval) list)"
    by (simp_all add: consumer_definition_def ordinary_def)
  from registered_names_hold_ports[of "''StageDataToS3''" "''9a8b7c6d-0000-4000-8000-000000000000''"
      consumer_definition "[]" consumer_task consumer_task "''extra_1''" "PInt 3"
      "task_outputs producer_task" ?ops]
    consumer_task_constructed d
  have 1: "named_ok (task_inputs consumer_task)" "named_ok (task_outputs consumer_task)"
    by simp_all
  obtain tp where tp: "Task_init ''x'' ?u task_port_definition [] = Inr tp"
    and ntp: "names_of (task_inputs tp) = [''task'']"
    by (simp add: eval_defs example_defs names_of_def)
  have dt: "list_all (\<lambda>p. ordinary (d_name p) \<and> d_name p \<noteq> ''_portnames'')
             (inputPortDescriptors task_port_definition)"
    "list_all (\<lambda>p. ordinary (d_name p) \<and> d_name p \<noteq> ''_portnames'')
             (outputPortDescriptors task_port_definition)"
    by (simp_all add: task_port_definition_def ordinary_def)
  from registered_names_hold_ports[of "''x''" ?u task_port_definition "[]" tp consumer_task
      "''extra_1''" "PInt 3" "task_outputs producer_task" ?ops] tp dt
  have 2: "named_ok (task_inputs tp)" by simp
  have o: "ports_ok (task_outputs producer_task)" "ports_ok (task_outputs consumer_task)"
    by (simp_all add: producer_task_def consumer_task_def ok_defs)
  have n: "''tiles'' \<in> set (names_of (task_outputs producer_task))"
    by (simp add: producer_task_def ok_defs)
  have a: "list_all avoids_internal_names ?ops" by (simp add: ordinary_def)
  have k: "ordinary ''extra_1''" by (simp add: ordinary_def)
  have e1: "names_of (task_inputs (snd (Inputs_setattr ''extra_1'' (PInt 3) consumer_task)))
       = [''data'', ''flag'', ''extra'', ''extra_1'']"
    by (simp add: eval_defs example_defs names_of_def)
  have e2: "names_of (snd (Outputs_getattribute ''tiles_1'' (task_outputs producer_task)))
       = [''out'', ''tiles'', ''tiles_1'']"
    by (simp add: Outputs_getattribute_def object_getattribute_def eval_defs example_defs names_of_def)
  from registered_names_hold_ports[of "''StageDataToS3''" "''9a8b7c6d-0000-4000-8000-000000000000''"
      consumer_definition "[]" consumer_task consumer_task "''extra_1''" "PInt 3"
      "task_outputs producer_task" ?ops]
    registered_names_hold_ports[of "''StageDataToS3''" "''9a8b7c6d-0000-4000-8000-000000000000''"
      consumer_definition "[]" consumer_task consumer_task "''tiles_1''" "PInt 3"
      "task_outputs producer_task" ?ops]
    1 2 tp ntp o n a k e1 e2
  show ?thesis by simp
qed

text \<open>
  C6 as stated fails. In the input collection of a task with a declared port called
  \<open>task\<close>, the write \<open>inputs.task = 5\<close> stores 5 in place of the Port while the name
  stays registered. And reading \<open>tiles_1\<close> from the outputs of \<open>producer_task\<close>, whose
  port \<open>tiles\<close> is multiplex, registers \<open>tiles_1\<close> with a Port whose \<open>name\<close> is
  \<open>tiles\<close>: \<open>Outputs.__getattribute__\<close> passes the template's name to \<open>Port\<close>, where
  \<open>Inputs.__setattr__\<close> passes the requested one.
\<close>

theorem registered_names_counterexample:
  "map_sum id
     (\<lambda>B. (named_ok (task_inputs B),
           names_of (task_inputs (snd (Inputs_setattr ''task'' (PInt 5) B))),
           task_inputs (snd (Inputs_setattr ''task'' (PInt 5) B)) ''task'',
           named_ok (task_inputs (snd (Inputs_setattr ''task'' (PInt 5) B)))))
     (Task_init ''x'' ''0f1e2d3c-0000-4000-8000-000000000000'' task_port_definition [])
     = Inr (True, [''task''], Some (Val (PInt 5)), False)
   \<and> named_ok (task_outputs producer_task)
   \<and> tiled_producer = snd (get_output ''tiles_1'' producer_task)
   \<and> names_of (task_outputs tiled_producer) = [''out'', ''tiles'', ''tiles_1'']
   \<and> map_option port_name (the_port (task_outputs tiled_producer) ''tiles_1'') = Some ''tiles''
   \<and> \<not> named_ok (task_outputs tiled_producer)"
proof -
  have 1: "map_sum id
     (\<lambda>B. (named_ok (task_inputs B),
           names_of (task_inputs (snd (Inputs_setattr ''task'' (PInt 5) B))),
           task_inputs (snd (Inputs_setattr ''task'' (PInt 5) B)) ''task'',
           named_ok (task_inputs (snd (Inputs_setattr ''task'' (PInt 5) B)))))
     (Task_init ''x'' ''0f1e2d3c-0000-4000-8000-000000000000'' task_port_definition [])
     = Inr (True, [''task''], Some (Val (PInt 5)), False)"
    by (simp add: eval_defs example_defs named_ok_def ok_defs)
  have 2: "named_ok (task_outputs producer_task)"
    by (simp add: producer_task_def named_ok_def ok_defs)
  have 3: "names_of (task_outputs tiled_producer) = [''out'', ''tiles'', ''tiles_1'']"
    by (simp add: tiled_producer_outputs(1) names_of_registered)
  have 4: "map_option port_name (the_port (task_outputs tiled_producer) ''tiles_1'') = Some ''tiles''"
    by (simp add: tiled_producer_outputs(1) the_port_new)
  have 5: "\<not> named_ok (task_outputs tiled_producer)"
    using 3 4 by (auto simp: named_ok_def names_of_def list_all_iff split: sum.splits)
  from 1 2 3 4 5 show ?thesis by (simp add: tiled_producer_def)
qed

end
